theory Spec2Isabelle
  imports Main
begin

section \<open>utils.py\<close>

subsection \<open>Strings\<close>

text \<open>
  Python's \<^verbatim>\<open>str.replace(old, new)\<close> where \<^verbatim>\<open>old\<close> is a single character: every
  occurrence of the character is replaced, left to right, and the replacement text is not
  scanned again. All four calls in \<^verbatim>\<open>telegram_html_escape\<close> have a one-character
  \<^verbatim>\<open>old\<close>. The replaced characters are ASCII, so working on the bytes of the UTF-8
  encoding gives the same result as working on code points.
\<close>

fun replace_char :: "char \<Rightarrow> string \<Rightarrow> string \<Rightarrow> string" where
  "replace_char c new [] = []"
| "replace_char c new (x # xs) =
     (if x = c then new @ replace_char c new xs else x # replace_char c new xs)"

text \<open>
  \<^verbatim>\<open>
  def telegram_html_escape(string: str):
      return string.replace("<", "&lt;") \
          .replace(">", "&gt;") \
          .replace("&", "&amp;") \
          .replace('"', "&quot;")
  \<close>
\<close>

definition telegram_html_escape :: "string \<Rightarrow> string" where
  "telegram_html_escape s =
     replace_char (CHR 0x22) ''&quot;''
       (replace_char CHR ''&'' ''&amp;''
         (replace_char CHR ''>'' ''&gt;''
           (replace_char CHR ''<'' ''&lt;'' s)))"

text \<open>What the four passes do to one character of the input, taken together.\<close>

definition escaped_char :: "char \<Rightarrow> string" where
  "escaped_char x =
     (if x = CHR ''<'' then ''&amp;lt;''
      else if x = CHR ''>'' then ''&amp;gt;''
      else if x = CHR ''&'' then ''&amp;''
      else if x = CHR 0x22 then ''&quot;''
      else [x])"

subsection \<open>check\_thumbnail\<close>

text \<open>
  \<^verbatim>\<open>requests.get(url)\<close> is the outside world: it either raises (no connection, malformed
  URL, ...) or returns a response. \<^verbatim>\<open>int(...)\<close> of the \<^verbatim>\<open>Content-Length\<close> header is
  kept as its three outcomes: the header is absent (the default \<^verbatim>\<open>'0'\<close> is parsed), it is
  present and is not a number (\<^verbatim>\<open>ValueError\<close>), or it is a number.
\<close>

datatype content_length_header = NoHeader | NotANumber | Number int

record http_response =
  status_code :: int
  content_type :: "string option"
  content_length :: content_length_header

type_synonym requests = "string \<Rightarrow> http_response option"

definition startswith :: "string \<Rightarrow> string \<Rightarrow> bool" where
  "startswith s p = (take (length p) s = p)"

text \<open>
  \<^verbatim>\<open>
  def check_thumbnail(thumbnail_url):
      try:
          response = requests.get(thumbnail_url)
          if response.status_code == 200:
              content_type = response.headers.get('Content-Type', '')
              content_length = int(response.headers.get('Content-Length', '0'))
              if content_type.startswith('image/jpeg') and content_length < 200 * 1024:
                  return thumbnail_url  # Valid thumbnail URL
      except Exception as e:
          pass
      return None
  \<close>
\<close>

definition check_thumbnail :: "requests \<Rightarrow> string \<Rightarrow> string option" where
  "check_thumbnail get thumbnail_url =
     (case get thumbnail_url of
        None \<Rightarrow> None
      | Some response \<Rightarrow>
          if status_code response = 200 then
            (let ctype = (case content_type response of None \<Rightarrow> [] | Some v \<Rightarrow> v) in
             case content_length response of
               NotANumber \<Rightarrow> None
             | NoHeader \<Rightarrow>
                 if startswith ctype ''image/jpeg'' \<and> (0::int) < 200 * 1024
                 then Some thumbnail_url else None
             | Number clen \<Rightarrow>
                 if startswith ctype ''image/jpeg'' \<and> clen < 200 * 1024
                 then Some thumbnail_url else None)
          else None)"

text \<open>Python's truth value of the result: \<^verbatim>\<open>None\<close> and the empty string are false.\<close>

fun truthy_str :: "string option \<Rightarrow> bool" where
  "truthy_str None = False"
| "truthy_str (Some s) = (s \<noteq> [])"

section \<open>worker.py: formats and thumbnails\<close>

subsection \<open>The resolver's dictionaries\<close>

text \<open>
  A format and a thumbnail are dictionaries of the media resolver. The keys the code indexes
  without a test (\<^verbatim>\<open>abr\<close>, \<^verbatim>\<open>ext\<close>, \<^verbatim>\<open>url\<close>, \<^verbatim>\<open>width\<close>) are fields; the key
  whose presence the code tests (\<^verbatim>\<open>"resolution" in thumbnail_info\<close>) is an option. The
  bitrate is an integer number of kbps.
\<close>

record format_info =
  abr :: int
  ext :: string
  url :: string

record thumbnail_info =
  resolution :: "string option"
  width :: int
  thumb_url :: string

record button =
  btn_text :: string
  callback_data :: string

subsection \<open>Text of a number, upper case, substring\<close>

definition digit_char :: "nat \<Rightarrow> char" where
  "digit_char d = char_of (48 + d)"

fun str_nat :: "nat \<Rightarrow> string" where
  "str_nat n = (if n < 10 then [digit_char n] else str_nat (n div 10) @ [digit_char (n mod 10)])"

declare str_nat.simps [simp del]

text \<open>The number a string of decimal digits stands for (reading back \<open>str_nat\<close>).\<close>

definition digits_value :: "string \<Rightarrow> nat" where
  "digits_value s = foldl (\<lambda>a c. 10 * a + (of_char c - 48)) 0 s"

text \<open>Python's \<^verbatim>\<open>str\<close> of an integer.\<close>

definition str_int :: "int \<Rightarrow> string" where
  "str_int i = (if i < 0 then CHR ''-'' # str_nat (nat (- i)) else str_nat (nat i))"

text \<open>\<^verbatim>\<open>str.upper\<close> on the ASCII letters; other bytes are kept.\<close>

definition upper_char :: "char \<Rightarrow> char" where
  "upper_char c =
     (if (97::nat) \<le> of_char c \<and> of_char c \<le> (122::nat) then char_of (of_char c - (32::nat)) else c)"

definition upper :: "string \<Rightarrow> string" where
  "upper s = map upper_char s"

text \<open>\<^verbatim>\<open>sub in s\<close> for strings.\<close>

fun str_contains :: "string \<Rightarrow> string \<Rightarrow> bool" where
  "str_contains sub [] = (sub = [])"
| "str_contains sub (x # xs) = (startswith (x # xs) sub \<or> str_contains sub xs)"

subsection \<open>\_create\_format\_buttons\<close>

text \<open>
  \<^verbatim>\<open>
  def _create_format_buttons(self, formats):
      format_buttons = []
      format_urls = []  # Store the URLs separately
      format_seen = set()  # Track seen formats
      for format_info in formats:
          if format_info["abr"] > 64 and ".m3u8" not in format_info["url"]:
              format_key = f"{format_info['abr']} kbps {format_info['ext'].upper()}"
              if format_key not in format_seen:
                  format_buttons.append(
                      telegram.InlineKeyboardButton(
                          text=f"Download {format_key}",
                          callback_data=f"download_format:{len(format_urls)}",
                      )
                  )
                  format_urls.append(format_info["url"])  # Store the URL
                  format_seen.add(format_key)  # Mark format as seen
      return format_buttons, format_urls
  \<close>
\<close>

definition format_key :: "format_info \<Rightarrow> string" where
  "format_key f = str_int (abr f) @ '' kbps '' @ upper (ext f)"

definition format_accepted :: "format_info \<Rightarrow> bool" where
  "format_accepted f = (abr f > 64 \<and> \<not> str_contains ''.m3u8'' (url f))"

definition format_button :: "string \<Rightarrow> nat \<Rightarrow> button" where
  "format_button key n =
     \<lparr>btn_text = ''Download '' @ key, callback_data = ''download_format:'' @ str_nat n\<rparr>"

text \<open>The loop, with the three local variables as accumulators.\<close>

fun format_buttons_loop ::
  "format_info list \<Rightarrow> button list \<Rightarrow> string list \<Rightarrow> string set \<Rightarrow> button list \<times> string list"
where
  "format_buttons_loop [] format_buttons format_urls format_seen = (format_buttons, format_urls)"
| "format_buttons_loop (f # formats) format_buttons format_urls format_seen =
     (if format_accepted f then
        (if format_key f \<notin> format_seen then
           format_buttons_loop formats
             (format_buttons @ [format_button (format_key f) (length format_urls)])
             (format_urls @ [url f])
             (insert (format_key f) format_seen)
         else format_buttons_loop formats format_buttons format_urls format_seen)
      else format_buttons_loop formats format_buttons format_urls format_seen)"

definition create_format_buttons :: "format_info list \<Rightarrow> button list \<times> string list" where
  "create_format_buttons formats = format_buttons_loop formats [] [] {}"

text \<open>
  The rule as the specification words it, for comparison with \<open>format_accepted\<close>: a format
  is left out when its bitrate is below 64 kbps or its URL is a streaming manifest.
\<close>

definition spec_format_excluded :: "format_info \<Rightarrow> bool" where
  "spec_format_excluded f = (abr f < 64 \<or> str_contains ''.m3u8'' (url f))"

subsection \<open>\_get\_best\_thumbnail\<close>

text \<open>
  \<^verbatim>\<open>
  def _get_best_thumbnail(self, thumbnails):
      best_thumbnail = None
      for thumbnail_info in thumbnails:
          if "resolution" in thumbnail_info:
              if (
                  not best_thumbnail
                  or thumbnail_info["width"] > best_thumbnail["width"]
                  and utils.check_thumbnail(best_thumbnail["url"])
              ):
                  best_thumbnail = thumbnail_info
      return best_thumbnail
  \<close>
  \<^verbatim>\<open>and\<close> binds tighter than \<^verbatim>\<open>or\<close>. A thumbnail that has the key
  \<^verbatim>\<open>resolution\<close> is a non-empty dictionary, so \<^verbatim>\<open>not best_thumbnail\<close> holds exactly
  while \<^verbatim>\<open>best_thumbnail\<close> is \<^verbatim>\<open>None\<close>.
\<close>

fun best_thumbnail_loop ::
  "requests \<Rightarrow> thumbnail_info list \<Rightarrow> thumbnail_info option \<Rightarrow> thumbnail_info option"
where
  "best_thumbnail_loop get [] best_thumbnail = best_thumbnail"
| "best_thumbnail_loop get (t # thumbnails) best_thumbnail =
     best_thumbnail_loop get thumbnails
       (if resolution t \<noteq> None then
          (case best_thumbnail of
             None \<Rightarrow> Some t
           | Some best \<Rightarrow>
               if width t > width best \<and> truthy_str (check_thumbnail get (thumb_url best))
               then Some t else Some best)
        else best_thumbnail)"

definition get_best_thumbnail :: "requests \<Rightarrow> thumbnail_info list \<Rightarrow> thumbnail_info option" where
  "get_best_thumbnail get thumbnails = best_thumbnail_loop get thumbnails None"

text \<open>
  The thumbnail row of \<^verbatim>\<open>__show_one\<close>:
  \<^verbatim>\<open>
  best_thumbnail = self._get_best_thumbnail(data["thumbnails"])
  thumbnail_button = (
      telegram.InlineKeyboardButton(text="Download Cover", callback_data="download_cover")
      if best_thumbnail else None)
  \<close>
\<close>

definition thumbnail_button :: "requests \<Rightarrow> thumbnail_info list \<Rightarrow> button option" where
  "thumbnail_button get thumbnails =
     (case get_best_thumbnail get thumbnails of
        None \<Rightarrow> None
      | Some best \<Rightarrow> Some \<lparr>btn_text = ''Download Cover'', callback_data = ''download_cover''\<rparr>)"

section \<open>worker.py: the worker and its mailbox\<close>

subsection \<open>Telegram objects\<close>

text \<open>
  An update of the transport is one object with optional parts; the code probes the parts
  (\<^verbatim>\<open>update.message is None\<close>, \<^verbatim>\<open>update.callback_query is None\<close>), so they are
  options here. The text of a message is optional as well.
\<close>

record message =
  chat_id :: int
  chat_type :: string
  msg_text :: "string option"
  message_id :: int

record callback_query =
  cq_id :: string
  cq_from_user :: int
  cq_data :: string

record pre_checkout_query =
  pcq_id :: string
  pcq_from_user :: int
  invoice_payload :: string

record update =
  update_id :: int
  message :: "message option"
  callback_query :: "callback_query option"
  pre_checkout_query :: "pre_checkout_query option"

text \<open>
  What the dispatcher puts into a worker's queue: an update, a \<^verbatim>\<open>CancelSignal()\<close> or a
  \<^verbatim>\<open>StopSignal(reason)\<close>.
\<close>

datatype item = Update update | CancelSignal | StopSignal string

subsection \<open>Calls on the bot\<close>

text \<open>
  A message id is an integer, except for the string \<^verbatim>\<open>"1"\<close> that the waits return
  next to a \<^verbatim>\<open>CancelSignal\<close>.
\<close>

datatype pyid = IntId int | StrId string

datatype reply_markup =
    ReplyKeyboardMarkup "string list list"
  | ReplyKeyboardRemove
  | InlineKeyboardMarkup "button list list"

text \<open>
  The calls a worker or the dispatcher makes on the bot, with the arguments the code passes.
  Each call is taken to return; the state keeps them in the order they are made.
\<close>

datatype bot_call =
    SendMessage int string "reply_markup option" "pyid option"
  | DeleteMessage int int
  | EditMessageText int int string "reply_markup option"
  | EditMessageReplyMarkup int int "reply_markup option"
  | AnswerCallbackQuery string
  | AnswerPreCheckoutQuery string bool string
  | SendPhoto int string string
  | SendAudio int string string string string string

subsection \<open>Exceptions and results\<close>

text \<open>
  \<^verbatim>\<open>sys.exit(0)\<close> raises \<^verbatim>\<open>SystemExit\<close>, which is not an \<^verbatim>\<open>Exception\<close>: the
  handlers \<^verbatim>\<open>except Exception\<close> of the worker let it pass, and the thread ends.
\<close>

datatype py_error =
    AttributeError | KeyError | TypeError | ValueError | IndexError
  | DownloadError | RequestException

datatype exn = SystemExit int | Exception py_error

subsection \<open>The worker object\<close>

text \<open>
  The attributes of a \<^verbatim>\<open>Worker\<close> that the conversation and the dispatcher read or write.
  \<^verbatim>\<open>__init__\<close> sets neither \<^verbatim>\<open>loc\<close> nor \<^verbatim>\<open>invoice_payload\<close>: an attribute that
  is not set is \<open>None\<close> here, and reading it raises \<^verbatim>\<open>AttributeError\<close>. The class
  \<^verbatim>\<open>Localization\<close> is not among the sources: a localization object is taken as its
  method \<^verbatim>\<open>get(key, **kwargs)\<close>, from a key and the keyword arguments to the text. \<open>alive\<close> is the state of the thread
  (\<^verbatim>\<open>Thread.is_alive()\<close>), \<open>sent\<close> the calls this worker made on the bot, and
  \<open>next_message_id\<close> the id Telegram gives to the next message the worker sends.
\<close>

type_synonym localization = "string \<Rightarrow> (string \<times> string) list \<Rightarrow> string"

record worker =
  chat :: int
  queue :: "item list"
  loc :: "localization option"
  worker_invoice_payload :: "string option"
  session_open :: bool
  alive :: bool
  sent :: "bot_call list"
  next_message_id :: int

datatype 'a result = Return 'a worker | Raise exn worker | OutOfFuel

text \<open>
  \<^verbatim>\<open>
  def __init__(self, bot, chat, telegram_user, cfg, engine, *args, **kwargs):
      super().__init__(name=f"Worker {chat.id}", *args, **kwargs)
      self.bot, self.chat, self.telegram_user, self.cfg = (bot, chat, telegram_user, cfg)
      self.cancel_keyboard = [[telegram.KeyboardButton("Cancel")]]   # with a leading emoji
      self.ydl_opts = {"extract_flat": True, "dumpjson": True}
      self.ITEMS_PER_PAGE = 15
      self.MAX_RETRIES = 3
      self.session = sqlalchemy.orm.sessionmaker(bind=engine)()
      self.user: Optional[db.User] = None
      self.admin: Optional[db.Admin] = None
      self.queue = queuem.Queue()
  \<close>
  The thread is not started by the constructor.
\<close>

definition Worker_init :: "int \<Rightarrow> worker" where
  "Worker_init chat_id' =
     \<lparr>chat = chat_id', queue = [], loc = None, worker_invoice_payload = None,
      session_open = True, alive = False, sent = [], next_message_id = 1\<rparr>"

definition ITEMS_PER_PAGE :: int where
  "ITEMS_PER_PAGE = 15"

definition MAX_RETRIES :: nat where
  "MAX_RETRIES = 3"

text \<open>The label of the cancel keyboard: the emoji U+1F519 in UTF-8, a space, \<open>Cancel\<close>.\<close>

definition cancel_keyboard :: "string list list" where
  "cancel_keyboard = [[[CHR 0xF0, CHR 0x9F, CHR 0x94, CHR 0x99] @ '' Cancel'']]"

text \<open>
  \<^verbatim>\<open>
  def is_ready(self):
      return self.loc is not None
  \<close>
  \<^verbatim>\<open>_create_localization\<close> is the only place that assigns \<^verbatim>\<open>self.loc\<close>, and it
  assigns an object, never \<^verbatim>\<open>None\<close>.
\<close>

definition is_ready :: "worker \<Rightarrow> py_error + bool" where
  "is_ready w = (case loc w of None \<Rightarrow> Inl AttributeError | Some l \<Rightarrow> Inr True)"

definition create_localization :: "localization \<Rightarrow> worker \<Rightarrow> worker" where
  "create_localization l w = w\<lparr>loc := Some l\<rparr>"

subsection \<open>Sending\<close>

definition bot_call :: "bot_call \<Rightarrow> worker \<Rightarrow> worker" where
  "bot_call c w = w\<lparr>sent := sent w @ [c]\<rparr>"

text \<open>\<^verbatim>\<open>self.bot.send_message(...)\<close>: the call, and the id of the message it returns.\<close>

definition send_message ::
  "string \<Rightarrow> reply_markup option \<Rightarrow> pyid option \<Rightarrow> worker \<Rightarrow> int \<times> worker"
where
  "send_message txt markup reply_to w =
     (next_message_id w,
      w\<lparr>sent := sent w @ [SendMessage (chat w) txt markup reply_to],
        next_message_id := next_message_id w + 1\<rparr>)"

subsection \<open>Graceful stop\<close>

text \<open>
  The conversation runs after \<^verbatim>\<open>run()\<close> has called \<^verbatim>\<open>_create_localization\<close>; its
  functions take \<open>loc_get\<close>, the \<^verbatim>\<open>get\<close> of the object that is then in
  \<^verbatim>\<open>self.loc\<close>.
\<close>

text \<open>
  \<^verbatim>\<open>
  def _graceful_stop(self, stop_trigger: StopSignal):
      if stop_trigger.reason == "timeout":
          self._notify_session_expiration()
      self._close_resources()

  def _notify_session_expiration(self):
      self.bot.send_message(
          self.chat.id,
          self.loc.get("conversation_expired"),
          reply_markup=telegram.ReplyKeyboardRemove(),
      )

  def _close_resources(self):
      self.session.close()
      sys.exit(0)
  \<close>
\<close>

definition notify_session_expiration :: "localization \<Rightarrow> worker \<Rightarrow> worker" where
  "notify_session_expiration loc_get w =
     snd (send_message (loc_get ''conversation_expired'' []) (Some ReplyKeyboardRemove) None w)"

definition close_resources :: "worker \<Rightarrow> 'a result" where
  "close_resources w = Raise (SystemExit 0) (w\<lparr>session_open := False\<rparr>)"

definition graceful_stop :: "localization \<Rightarrow> string \<Rightarrow> worker \<Rightarrow> 'a result" where
  "graceful_stop loc_get reason w =
     close_resources (if reason = ''timeout'' then notify_session_expiration loc_get w else w)"

subsection \<open>Receiving\<close>

text \<open>
  \<^verbatim>\<open>
  def __receive_next_update(self) -> telegram.Update:
      try:
          data = self.queue.get(timeout=self.cfg["Telegram"]["conversation_timeout"])
      except queuem.Empty:
          self._graceful_stop(StopSignal("timeout"))
      if isinstance(data, StopSignal):
          self._graceful_stop(data)
      return data
  \<close>
  The queue of the model holds the items that arrive in time, in order: \<^verbatim>\<open>queue.get\<close>
  takes the first one, and on the empty queue it times out (\<^verbatim>\<open>queuem.Empty\<close>).
  \<^verbatim>\<open>_graceful_stop\<close> does not return, so the function returns updates and cancel
  signals only.
\<close>

definition receive_next_update :: "localization \<Rightarrow> worker \<Rightarrow> item result" where
  "receive_next_update loc_get w =
     (case queue w of
        [] \<Rightarrow> graceful_stop loc_get ''timeout'' w
      | data # rest \<Rightarrow>
          (case data of
             StopSignal reason \<Rightarrow> graceful_stop loc_get reason (w\<lparr>queue := rest\<rparr>)
           | _ \<Rightarrow> Return data (w\<lparr>queue := rest\<rparr>)))"

subsection \<open>The waits\<close>

datatype 'a or_cancel = IsCancelSignal | Value 'a

text \<open>
  \<^verbatim>\<open>
  def _wait_for_specific_message(self, items, cancellable=False):
      while True:
          update = self.__receive_next_update()
          if isinstance(update, CancelSignal):
              if cancellable:
                  return update, "1"
              else:
                  continue
          if update.message is None:
              continue
          if update.message.text is None:
              continue
          if update.message.text not in items:
              continue
          return update.message.text, update.message.message_id
  \<close>
  Every turn of the loop takes one item off the queue, which is the measure of the
  recursion. A stop signal never comes back from \<open>receive_next_update\<close>; were it to, the
  attribute \<^verbatim>\<open>message\<close> would be missing on it.
\<close>

function wait_for_specific_message ::
  "localization \<Rightarrow> string list \<Rightarrow> bool \<Rightarrow> worker \<Rightarrow> (string or_cancel \<times> pyid) result"
where
  "wait_for_specific_message loc_get items cancellable w =
     (case receive_next_update loc_get w of
        OutOfFuel \<Rightarrow> OutOfFuel
      | Raise e w' \<Rightarrow> Raise e w'
      | Return data w' \<Rightarrow>
          (case data of
             CancelSignal \<Rightarrow>
               if cancellable then Return (IsCancelSignal, StrId ''1'') w'
               else wait_for_specific_message loc_get items cancellable w'
           | StopSignal reason \<Rightarrow> Raise (Exception AttributeError) w'
           | Update u \<Rightarrow>
               (case message u of
                  None \<Rightarrow> wait_for_specific_message loc_get items cancellable w'
                | Some m \<Rightarrow>
                    (case msg_text m of
                       None \<Rightarrow> wait_for_specific_message loc_get items cancellable w'
                     | Some t \<Rightarrow>
                         if t \<notin> set items then wait_for_specific_message loc_get items cancellable w'
                         else Return (Value t, IntId (message_id m)) w'))))"
  by pat_completeness auto
termination
  by (relation "measure (\<lambda>(loc_get, items, cancellable, w). length (queue w))")
    (auto simp: receive_next_update_def graceful_stop_def close_resources_def
      split: list.splits item.splits)

text \<open>
  \<^verbatim>\<open>
  def __wait_for_regex(self, regex, cancellable=False):
      while True:
          update = self.__receive_next_update()
          if isinstance(update, CancelSignal):
              if cancellable:
                  return update, "1"
              else:
                  continue
          if update.message is None:
              continue
          if update.message.text is None:
              continue
          match = re.search(regex, update.message.text, re.DOTALL)
          if match is None:
              continue
          return match.group(1), update.message.message_id
  \<close>
  The regular expression is the function from a text to the first capture group of its
  first match, if there is a match.
\<close>

function wait_for_regex ::
  "localization \<Rightarrow> (string \<Rightarrow> string option) \<Rightarrow> bool \<Rightarrow> worker \<Rightarrow> (string or_cancel \<times> pyid) result"
where
  "wait_for_regex loc_get regex cancellable w =
     (case receive_next_update loc_get w of
        OutOfFuel \<Rightarrow> OutOfFuel
      | Raise e w' \<Rightarrow> Raise e w'
      | Return data w' \<Rightarrow>
          (case data of
             CancelSignal \<Rightarrow>
               if cancellable then Return (IsCancelSignal, StrId ''1'') w'
               else wait_for_regex loc_get regex cancellable w'
           | StopSignal reason \<Rightarrow> Raise (Exception AttributeError) w'
           | Update u \<Rightarrow>
               (case message u of
                  None \<Rightarrow> wait_for_regex loc_get regex cancellable w'
                | Some m \<Rightarrow>
                    (case msg_text m of
                       None \<Rightarrow> wait_for_regex loc_get regex cancellable w'
                     | Some t \<Rightarrow>
                         (case regex t of
                            None \<Rightarrow> wait_for_regex loc_get regex cancellable w'
                          | Some group1 \<Rightarrow> Return (Value group1, IntId (message_id m)) w')))))"
  by pat_completeness auto
termination
  by (relation "measure (\<lambda>(loc_get, regex, cancellable, w). length (queue w))")
    (auto simp: receive_next_update_def graceful_stop_def close_resources_def
      split: list.splits item.splits)

text \<open>
  \<^verbatim>\<open>
  def __wait_for_inlinekeyboard_callback(self, cancellable=False):
      while True:
          update = self.__receive_next_update()
          if isinstance(update, CancelSignal):
              if cancellable:
                  return update
              else:
                  continue
          if update.callback_query is None:
              continue
          self.bot.answer_callback_query(update.callback_query.id)
          return update.callback_query
  \<close>
\<close>

function wait_for_inlinekeyboard_callback ::
  "localization \<Rightarrow> bool \<Rightarrow> worker \<Rightarrow> callback_query or_cancel result"
where
  "wait_for_inlinekeyboard_callback loc_get cancellable w =
     (case receive_next_update loc_get w of
        OutOfFuel \<Rightarrow> OutOfFuel
      | Raise e w' \<Rightarrow> Raise e w'
      | Return data w' \<Rightarrow>
          (case data of
             CancelSignal \<Rightarrow>
               if cancellable then Return IsCancelSignal w'
               else wait_for_inlinekeyboard_callback loc_get cancellable w'
           | StopSignal reason \<Rightarrow> Raise (Exception AttributeError) w'
           | Update u \<Rightarrow>
               (case callback_query u of
                  None \<Rightarrow> wait_for_inlinekeyboard_callback loc_get cancellable w'
                | Some cq \<Rightarrow> Return (Value cq) (bot_call (AnswerCallbackQuery (cq_id cq)) w'))))"
  by pat_completeness auto
termination
  by (relation "measure (\<lambda>(loc_get, cancellable, w). length (queue w))")
    (auto simp: receive_next_update_def graceful_stop_def close_resources_def
      split: list.splits item.splits)

declare wait_for_specific_message.simps [simp del]
declare wait_for_regex.simps [simp del]
declare wait_for_inlinekeyboard_callback.simps [simp del]

section \<open>worker.py: the conversation\<close>

subsection \<open>The resolver and the outside world\<close>

text \<open>
  What \<^verbatim>\<open>ydl.extract_info\<close> returns is a dictionary; the keys the code reads are fields,
  each an option, and \<^verbatim>\<open>data["k"]\<close> on a missing key raises \<^verbatim>\<open>KeyError\<close>. The entries
  of a playlist are dictionaries with a \<^verbatim>\<open>url\<close>.
\<close>

record entry =
  entry_url :: string

record data =
  d_type :: "string option"
  d_title :: "string option"
  d_webpage_url :: "string option"
  d_url :: "string option"
  d_entries :: "entry list option"
  d_thumbnails :: "thumbnail_info list option"
  d_formats :: "format_info list option"
  d_http_headers :: "(string \<times> string) list option"
  d_uploader :: "string option"

text \<open>
  The collaborators of a conversation: the localization object of the worker, the media
  resolver (\<^verbatim>\<open>extract_info\<close> raises or returns a dictionary), HTTP
  (\<^verbatim>\<open>requests.get\<close> raises or returns a response), and what the storage prelude of
  \<^verbatim>\<open>run()\<close> finds: whether the user is an administrator
  (\<^verbatim>\<open>self.admin is not None\<close>), whether the user is new, the administrators, the number
  of users and the user's \<^verbatim>\<open>identifiable_str()\<close>.
\<close>

record world =
  loc_get :: localization
  extract_info :: "string \<Rightarrow> py_error + data"
  requests_get :: requests
  is_admin :: bool
  new_user :: bool
  admins :: "int list"
  users_count :: nat
  user_identifiable_str :: string

subsection \<open>Sequencing\<close>

definition bind :: "'a result \<Rightarrow> ('a \<Rightarrow> worker \<Rightarrow> 'b result) \<Rightarrow> 'b result" where
  "bind r f = (case r of Return x w \<Rightarrow> f x w | Raise e w \<Rightarrow> Raise e w | OutOfFuel \<Rightarrow> OutOfFuel)"

text \<open>\<^verbatim>\<open>try: ... except Exception as e: ...\<close>: \<^verbatim>\<open>SystemExit\<close> is not caught.\<close>

definition except_Exception :: "'a result \<Rightarrow> (py_error \<Rightarrow> worker \<Rightarrow> 'a result) \<Rightarrow> 'a result" where
  "except_Exception r handler =
     (case r of
        Raise (Exception e) w \<Rightarrow> handler e w
      | _ \<Rightarrow> r)"

text \<open>\<^verbatim>\<open>d["k"]\<close>.\<close>

definition getitem :: "'a option \<Rightarrow> worker \<Rightarrow> 'a result" where
  "getitem v w = (case v of None \<Rightarrow> Raise (Exception KeyError) w | Some x \<Rightarrow> Return x w)"

subsection \<open>Python's lists, strings and numbers\<close>

text \<open>\<^verbatim>\<open>xs[i]\<close>: a negative index counts from the end; out of range is \<^verbatim>\<open>IndexError\<close>.\<close>

definition py_index :: "'a list \<Rightarrow> int \<Rightarrow> 'a option" where
  "py_index xs i =
     (let n = int (length xs); j = (if i < 0 then i + n else i)
      in if 0 \<le> j \<and> j < n then Some (xs ! nat j) else None)"

text \<open>\<^verbatim>\<open>xs[a:b]\<close>: negative bounds count from the end, and the bounds are clipped.\<close>

definition slice_bound :: "int \<Rightarrow> int \<Rightarrow> int" where
  "slice_bound n i = (if i < 0 then max 0 (i + n) else min i n)"

definition py_slice :: "'a list \<Rightarrow> int \<Rightarrow> int \<Rightarrow> 'a list" where
  "py_slice xs a b =
     (let n = int (length xs); a' = slice_bound n a; b' = slice_bound n b
      in take (nat (b' - a')) (drop (nat a') xs))"

text \<open>\<^verbatim>\<open>xs.index(x)\<close> for an \<open>x\<close> that is in the list.\<close>

fun index_of :: "'a list \<Rightarrow> 'a \<Rightarrow> nat" where
  "index_of [] x = 0"
| "index_of (y # ys) x = (if y = x then 0 else Suc (index_of ys x))"

text \<open>\<^verbatim>\<open>s.split(sep)\<close> for a one-character separator.\<close>

fun split_char :: "char \<Rightarrow> string \<Rightarrow> string list" where
  "split_char sep [] = [[]]"
| "split_char sep (c # cs) =
     (if c = sep then [] # split_char sep cs
      else (case split_char sep cs of
              [] \<Rightarrow> [[c]]
            | piece # pieces \<Rightarrow> (c # piece) # pieces))"

text \<open>
  \<^verbatim>\<open>int(s)\<close> for a string: an optional sign and decimal digits. (Python also accepts
  surrounding white space and underscores between digits; the callback data the bot writes
  has neither.) Anything else is \<^verbatim>\<open>ValueError\<close>.
\<close>

definition is_digit :: "char \<Rightarrow> bool" where
  "is_digit c = ((48::nat) \<le> of_char c \<and> of_char c \<le> (57::nat))"

definition parse_nat :: "string \<Rightarrow> nat option" where
  "parse_nat s = (if s \<noteq> [] \<and> list_all is_digit s then Some (digits_value s) else None)"

definition parse_int :: "string \<Rightarrow> int option" where
  "parse_int s =
     (case s of
        [] \<Rightarrow> None
      | c # cs \<Rightarrow>
          if c = CHR ''-'' then map_option (\<lambda>n. - int n) (parse_nat cs)
          else if c = CHR ''+'' then map_option int (parse_nat cs)
          else map_option int (parse_nat s))"

subsection \<open>The link\<close>

text \<open>
  \<^verbatim>\<open>re.search(r"(.*)", text, re.DOTALL).group(1)\<close>: the pattern matches at the start and
  takes the whole text.
\<close>

definition regex_any :: "string \<Rightarrow> string option" where
  "regex_any t = Some t"

text \<open>
  \<^verbatim>\<open>re.search("(?P<url>https?://[^\s]+)", link).group("url")\<close>: the leftmost place where
  \<^verbatim>\<open>http://\<close> or \<^verbatim>\<open>https://\<close> is followed by at least one character that is not white
  space, up to the next white space. White space is ASCII white space here.
\<close>

definition is_space :: "char \<Rightarrow> bool" where
  "is_space c = (c \<in> set [CHR '' '', CHR 0x09, CHR 0x0A, CHR 0x0B, CHR 0x0C, CHR 0x0D,
                            CHR 0x1C, CHR 0x1D, CHR 0x1E, CHR 0x1F])"

definition match_url_at :: "string \<Rightarrow> string option" where
  "match_url_at s =
     (let scheme = (if startswith s ''https://'' then Some ''https://''
                    else if startswith s ''http://'' then Some ''http://''
                    else None)
      in case scheme of
           None \<Rightarrow> None
         | Some p \<Rightarrow>
             (let tail = takeWhile (\<lambda>c. \<not> is_space c) (drop (length p) s)
              in if tail = [] then None else Some (p @ tail)))"

fun search_url :: "string \<Rightarrow> string option" where
  "search_url [] = None"
| "search_url (c # cs) =
     (case match_url_at (c # cs) of
        Some u \<Rightarrow> Some u
      | None \<Rightarrow> search_url cs)"

subsection \<open>Keyboards\<close>

text \<open>
  \<^verbatim>\<open>
  def __create_keyboard(self):
      return telegram.InlineKeyboardMarkup([
          [InlineKeyboardButton(text=self.loc.get("menu_soundcloud"), callback_data="cmd_soundcloud"),
           InlineKeyboardButton(text=self.loc.get("menu_spotify"), callback_data="cmd_spotify")],
          [InlineKeyboardButton(text=self.loc.get("menu_youtube"), callback_data="cmd_youtube"),
           InlineKeyboardButton(text=self.loc.get("menu_deezer"), callback_data="cmd_deezer")]])
  \<close>
\<close>

definition create_keyboard :: "world \<Rightarrow> reply_markup" where
  "create_keyboard env =
     InlineKeyboardMarkup
       [[\<lparr>btn_text = loc_get env ''menu_soundcloud'' [], callback_data = ''cmd_soundcloud''\<rparr>,
         \<lparr>btn_text = loc_get env ''menu_spotify'' [], callback_data = ''cmd_spotify''\<rparr>],
        [\<lparr>btn_text = loc_get env ''menu_youtube'' [], callback_data = ''cmd_youtube''\<rparr>,
         \<lparr>btn_text = loc_get env ''menu_deezer'' [], callback_data = ''cmd_deezer''\<rparr>]]"

text \<open>
  \<^verbatim>\<open>
  def _create_buttons(self, page_data):
      buttons = [
          telegram.InlineKeyboardButton(
              text=f"{i + 1}. {data['title']}", callback_data=f"button_{i}")
          for i, data in enumerate(page_data)]
      return buttons
  \<close>
  \<open>None\<close> when a title is missing (\<^verbatim>\<open>KeyError\<close>).
\<close>

fun create_buttons_from :: "nat \<Rightarrow> data list \<Rightarrow> button list option" where
  "create_buttons_from i [] = Some []"
| "create_buttons_from i (d # ds) =
     (case d_title d of
        None \<Rightarrow> None
      | Some t \<Rightarrow>
          map_option
            (\<lambda>bs. \<lparr>btn_text = str_nat (i + 1) @ ''. '' @ t,
                    callback_data = ''button_'' @ str_nat i\<rparr> # bs)
            (create_buttons_from (Suc i) ds))"

definition create_buttons :: "data list \<Rightarrow> button list option" where
  "create_buttons page_data = create_buttons_from 0 page_data"

text \<open>
  \<^verbatim>\<open>
  def _create_navigation_buttons(self, page, data_list_length):
      navigation_buttons = []
      if page > 0:
          navigation_buttons.append(InlineKeyboardButton(
              text=self.loc.get("menu_previous"), callback_data="prev"))
      if (page + 1) * self.ITEMS_PER_PAGE < data_list_length:
          navigation_buttons.append(InlineKeyboardButton(
              text=self.loc.get("menu_next"), callback_data="next"))
      navigation_buttons.append(InlineKeyboardButton(
          text=self.loc.get("menu_cancel"), callback_data="cmd_cancel"))
      return navigation_buttons
  \<close>
\<close>

definition create_navigation_buttons :: "world \<Rightarrow> int \<Rightarrow> nat \<Rightarrow> button list" where
  "create_navigation_buttons env page data_list_length =
     (if page > 0
      then [\<lparr>btn_text = loc_get env ''menu_previous'' [], callback_data = ''prev''\<rparr>] else [])
     @ (if (page + 1) * ITEMS_PER_PAGE < int data_list_length
        then [\<lparr>btn_text = loc_get env ''menu_next'' [], callback_data = ''next''\<rparr>] else [])
     @ [\<lparr>btn_text = loc_get env ''menu_cancel'' [], callback_data = ''cmd_cancel''\<rparr>]"

text \<open>\<^verbatim>\<open>[buttons[i : i + 2] for i in range(0, len(buttons), 2)]\<close>\<close>

fun rows_of_two :: "'a list \<Rightarrow> 'a list list" where
  "rows_of_two [] = []"
| "rows_of_two [x] = [[x]]"
| "rows_of_two (x # y # xs) = [x, y] # rows_of_two xs"

subsection \<open>The link prompt\<close>

text \<open>
  \<^verbatim>\<open>
  def _handle_invalid_link(self, i, msg_link):
      if i >= 1:
          self.bot.delete_message(chat_id=self.chat.id, message_id=msg_link["message_id"])
      self.bot.send_message(
          chat_id=self.chat.id,
          text=self.loc.get("invalid_link"),
          reply_markup=telegram.ReplyKeyboardMarkup(
              self.cancel_keyboard, resize_keyboard=True, one_time_keyboard=True))

  def _clean_up_messages(self, i, msg_link):
      if i == 1:
          self.bot.delete_message(chat_id=self.chat.id, message_id=msg_link["message_id"])
  \<close>
\<close>

definition handle_invalid_link :: "world \<Rightarrow> nat \<Rightarrow> int \<Rightarrow> worker \<Rightarrow> worker" where
  "handle_invalid_link env i msg_link w =
     snd (send_message (loc_get env ''invalid_link'' [])
            (Some (ReplyKeyboardMarkup cancel_keyboard)) None
            (if i \<ge> 1 then bot_call (DeleteMessage (chat w) msg_link) w else w))"

definition clean_up_messages :: "nat \<Rightarrow> int \<Rightarrow> worker \<Rightarrow> worker" where
  "clean_up_messages i msg_link w =
     (if i = 1 then bot_call (DeleteMessage (chat w) msg_link) w else w)"

subsection \<open>Sending the audio\<close>

text \<open>
  \<^verbatim>\<open>
  def _send_audio_file(self, url, headers, title, uploader, thumb_url):
      try:
          audio_content = requests.get(url, stream=True, headers=headers).content
          thumb_content = requests.get(url=thumb_url, stream=True).content
          self.bot.send_audio(chat_id=self.chat.id, audio=audio_content,
              caption=self.loc.get("caption", title=title), parse_mode="HTML",
              title=f"{uploader} - {title}", filename=f"{uploader} - {title}.mp3",
              thumb=thumb_content)
      except Exception as e:
          log.error(f"Failed to send audio: {e}")
  \<close>
  The call is recorded with the two URLs whose contents are sent.
\<close>

definition send_audio_file :: "world \<Rightarrow> string \<Rightarrow> string \<Rightarrow> string \<Rightarrow> string \<Rightarrow> worker \<Rightarrow> worker" where
  "send_audio_file env audio_url title' uploader' thumb w =
     (case requests_get env audio_url of
        None \<Rightarrow> w
      | Some audio_response \<Rightarrow>
          (case requests_get env thumb of
             None \<Rightarrow> w
           | Some thumb_response \<Rightarrow>
               bot_call
                 (SendAudio (chat w) audio_url thumb
                    (loc_get env ''caption'' [(''title'', title')])
                    (uploader' @ '' - '' @ title')
                    (uploader' @ '' - '' @ title' @ ''.mp3''))
                 w))"

subsection \<open>Collecting the tracks of a playlist\<close>

text \<open>
  The loop of \<^verbatim>\<open>_handle_playlist\<close>:
  \<^verbatim>\<open>
  for da in data["entries"]:
      self.bot.edit_message_text(
          chat_id=self.chat.id,
          text=self.loc.get("get_information",
              track=data["entries"].index(da) + 1, all_tracks=len(data["entries"])),
          message_id=collect["message_id"])
      with youtube_dl.YoutubeDL(self.ydl_opts) as ydl:
          tracks.append(ydl.extract_info(url=da["url"], download=False))
  \<close>
\<close>

fun collect_tracks ::
  "world \<Rightarrow> entry list \<Rightarrow> int \<Rightarrow> entry list \<Rightarrow> data list \<Rightarrow> worker \<Rightarrow> data list result"
where
  "collect_tracks env all_entries collect [] tracks w = Return tracks w"
| "collect_tracks env all_entries collect (da # rest) tracks w =
     (let w1 = bot_call
                 (EditMessageText (chat w) collect
                    (loc_get env ''get_information''
                       [(''track'', str_nat (index_of all_entries da + 1)),
                        (''all_tracks'', str_nat (length all_entries))])
                    None) w
      in case extract_info env (entry_url da) of
           Inl e \<Rightarrow> Raise (Exception e) w1
         | Inr track \<Rightarrow> collect_tracks env all_entries collect rest (tracks @ [track]) w1)"

subsection \<open>The menus and the flows\<close>

text \<open>
  The methods below call each other without end: \<^verbatim>\<open>__user_menu\<close> is a \<^verbatim>\<open>while True\<close>
  loop, and every flow goes back to the menu by calling \<^verbatim>\<open>__user_menu\<close> again. Each
  method is a definition that takes \<open>self\<close>, the methods it may call, as the source does.
  \<open>worker_methods\<close> then ties the knot with fuel: the methods at fuel \<open>n + 1\<close> call the
  methods at fuel \<open>n\<close>, and at fuel \<open>0\<close> every method answers \<open>OutOfFuel\<close>. So the
  fuel bounds the number of nested calls and loop turns.

  \<^verbatim>\<open>
  def __user_menu(self):
      keyboard = self.__create_keyboard()
      message_user_menu = self.__send_user_menu_message(keyboard)
      while True:
          select = self.__wait_for_inlinekeyboard_callback()
          self.__handle_menu_selection(select, message_user_menu)

  def __handle_menu_selection(self, select, message_user_menu):
      command_map = {"cmd_soundcloud": self._soundcloud, "cmd_spotify": self._spotify,
                     "cmd_youtube": self._youtube, "cmd_deezer": self._deezer}
      command = command_map.get(select.data)
      if command:
          self.bot.delete_message(chat_id=self.chat.id, message_id=message_user_menu["message_id"])
          command()

  def _notify_updating(self, service_name: str):
      update_message = self.loc.get("under_updating").format(service_name)
      self.bot.send_message(chat_id=self.chat.id, text=update_message)
      self.__user_menu()

  def _get_link(self, msg_link):
      i = 0
      while i < self.MAX_RETRIES:
          link, msg_id = self.__wait_for_regex(r"(.*)", cancellable=True)
          if isinstance(link, CancelSignal):
              self._clean_up_messages(i, msg_link)
              self.__user_menu()
          try:
              url = re.search("(?P<url>https?://[^\s]+)", link).group("url")
              if "soundcloud" in url:
                  return url, msg_id
          except AttributeError:
              pass  # Invalid URL, retry
          self._handle_invalid_link(i, msg_link)
          i += 1
      self.bot.send_message(chat_id=self.chat.id, text=self.loc.get("invalid_link"))

  def _soundcloud(self):
      msg_link = self.bot.send_message(self.chat.id, self.loc.get("msg_link"),
          reply_markup=telegram.ReplyKeyboardMarkup(
              self.cancel_keyboard, resize_keyboard=True, one_time_keyboard=True))
      link, msg_id = self._get_link(msg_link)
      if link is None:
          return  # Exit if no valid link is provided
      try:
          self.bot.delete_message(chat_id=self.chat.id, message_id=msg_link["message_id"])
          start_msg = self.bot.send_message(chat_id=self.chat.id,
              text=self.loc.get("menu_loading"), reply_to_message_id=msg_id)
          self._handle_extraction(link, start_msg)
      except Exception as e:
          self.bot.send_message(chat_id=self.chat.id, text=self.loc.get("invalid_link"))
          print(f"Error: {e}")

  def _handle_extraction(self, link, start_msg):
      with youtube_dl.YoutubeDL(self.ydl_opts) as ydl:
          data = ydl.extract_info(url=link, download=False)
      if "_type" in data:
          if data["_type"] == "playlist":
              self._handle_playlist(data, start_msg)
          elif data["_type"] == "url":
              self._handle_url(data, start_msg)
      else:
          self.__show_one(data=data, message_id=start_msg["message_id"])

  def _handle_playlist(self, data, start_msg):
      self.bot.edit_message_text(chat_id=self.chat.id, message_id=start_msg["message_id"],
          text=self.loc.get("album_caption", title=data["title"],
              tracks=len(data["entries"]), url=data["webpage_url"]))
      tracks = []
      collect = self.bot.send_message(chat_id=self.chat.id,
          text=self.loc.get("get_information", track="0", all_tracks=len(data["entries"])))
      for da in data["entries"]:
          ...                                      # collect_tracks
      self.bot.delete_message(chat_id=self.chat.id, message_id=collect["message_id"])
      self.__show_many(data_list=tracks, page=0, ydl_opts=self.ydl_opts,
          message_id=start_msg["message_id"])

  def _handle_url(self, data, start_msg):
      with youtube_dl.YoutubeDL(self.ydl_opts) as ydl:
          data = ydl.extract_info(url=data["url"], download=False)
      if data.get("_type"):
          self._handle_playlist(data, start_msg)
      self.__show_one(data=data, message_id=start_msg["message_id"])

  def __show_one(self, data, message_id, data_list=None):
      best_thumbnail = self._get_best_thumbnail(data["thumbnails"])
      thumbnail_button = (InlineKeyboardButton(text="Download Cover",
          callback_data="download_cover") if best_thumbnail else None)
      format_buttons, format_urls = self._create_format_buttons(data["formats"])
      keyboard = []
      if thumbnail_button:
          keyboard.append([thumbnail_button])
      if format_buttons:
          keyboard.append(format_buttons)
      keyboard.append([InlineKeyboardButton(
          text=self.loc.get("menu_cancel"), callback_data="cmd_cancel")])
      reply_markup = telegram.InlineKeyboardMarkup(keyboard)
      self.bot.edit_message_text(chat_id=self.chat.id, message_id=message_id,
          text=f"Title: {data['title']}\nURL: {data['webpage_url']}",
          reply_markup=reply_markup)
      select = self.__wait_for_inlinekeyboard_callback(cancellable=True)
      if isinstance(select, CancelSignal):
          if data_list is None:
              self.bot.delete_message(chat_id=self.chat.id, message_id=message_id)
              self.__user_menu()
          else:
              self.__show_many(data_list, 0, self.ydl_opts, message_id)
      elif select.data == "download_cover":
          self.bot.delete_message(chat_id=self.chat.id, message_id=message_id)
          self.bot.send_photo(chat_id=self.chat.id,
              photo=requests.get(url=best_thumbnail["url"], stream=True).content,
              filename=basename(select.data), parse_mode="HTML")
          self.__user_menu()
      elif select.data.startswith("download_format:"):
          self.__send_file(select, data, format_urls, message_id, best_thumbnail)

  def __show_many(self, data_list, page, ydl_opts, message_id):
      start_idx = page * self.ITEMS_PER_PAGE
      end_idx = (page + 1) * self.ITEMS_PER_PAGE
      page_data = data_list[start_idx:end_idx]
      buttons = self._create_buttons(page_data)
      keyboard = [buttons[i : i + 2] for i in range(0, len(buttons), 2)]
      navigation_buttons = self._create_navigation_buttons(page, len(data_list))
      keyboard.append(navigation_buttons)
      reply_markup = telegram.InlineKeyboardMarkup(keyboard)
      self.bot.edit_message_reply_markup(chat_id=self.chat.id, message_id=message_id,
          reply_markup=reply_markup)
      select = self.__wait_for_inlinekeyboard_callback()
      if select.data == "cmd_cancel":
          self.bot.delete_message(chat_id=self.chat.id, message_id=message_id)
          self.__user_menu()
      elif select.data in ["next", "prev"]:
          new_page = page + 1 if select.data == "next" else page - 1
          self.__show_many(data_list, new_page, ydl_opts, message_id)
      else:
          selected_item_idx = int(select.data.split("_")[1])
          selected_data_item = page_data[selected_item_idx]
          self.__show_one(selected_data_item, message_id, data_list)

  def __send_file(self, select, data, format_urls, message_id, best_thumbnail):
      format_index = int(select.data[len("download_format:") :])
      if format_index < len(format_urls):
          self.bot.delete_message(chat_id=self.chat.id, message_id=message_id)
          best_thumbnail = self._get_best_thumbnail(data["thumbnails"])
          if best_thumbnail:
              self._send_audio_file(url=format_urls[format_index],
                  headers=data["http_headers"], title=data["title"],
                  uploader=data["uploader"], thumb_url=best_thumbnail["url"])
          self.__user_menu()
  \<close>

  Where the source reads an attribute of a value that cannot have it, the model raises what
  Python raises: \<^verbatim>\<open>select.data\<close> on a \<^verbatim>\<open>CancelSignal\<close> is \<^verbatim>\<open>AttributeError\<close>,
  unpacking \<^verbatim>\<open>None\<close> into \<^verbatim>\<open>link, msg_id\<close> is \<^verbatim>\<open>TypeError\<close>, and so is
  \<^verbatim>\<open>re.search\<close> on a \<^verbatim>\<open>CancelSignal\<close> and \<^verbatim>\<open>best_thumbnail["url"]\<close> on \<^verbatim>\<open>None\<close>.
  \<^verbatim>\<open>_get_link\<close> returns a pair or, after the loop, \<^verbatim>\<open>None\<close>.
\<close>

record methods =
  self_user_menu :: "worker \<Rightarrow> unit result"
  self_user_menu_loop :: "int \<Rightarrow> worker \<Rightarrow> unit result"
  self_handle_menu_selection :: "callback_query or_cancel \<Rightarrow> int \<Rightarrow> worker \<Rightarrow> unit result"
  self_notify_updating :: "string \<Rightarrow> worker \<Rightarrow> unit result"
  self_get_link :: "nat \<Rightarrow> int \<Rightarrow> worker \<Rightarrow> (string \<times> pyid) option result"
  self_soundcloud :: "worker \<Rightarrow> unit result"
  self_handle_extraction :: "string \<Rightarrow> int \<Rightarrow> worker \<Rightarrow> unit result"
  self_handle_playlist :: "data \<Rightarrow> int \<Rightarrow> worker \<Rightarrow> unit result"
  self_handle_url :: "data \<Rightarrow> int \<Rightarrow> worker \<Rightarrow> unit result"
  self_show_one :: "data \<Rightarrow> int \<Rightarrow> data list option \<Rightarrow> worker \<Rightarrow> unit result"
  self_show_many :: "data list \<Rightarrow> int \<Rightarrow> int \<Rightarrow> worker \<Rightarrow> unit result"
  self_send_file :: "callback_query \<Rightarrow> data \<Rightarrow> string list \<Rightarrow> int \<Rightarrow> worker \<Rightarrow> unit result"

definition user_menu :: "methods \<Rightarrow> world \<Rightarrow> worker \<Rightarrow> unit result" where
  "user_menu self env w =
     (let keyboard = create_keyboard env;
          (message_user_menu, w1) =
            send_message (loc_get env ''conversation_open_user_menu'' []) (Some keyboard) None w
      in self_user_menu_loop self message_user_menu w1)"

definition user_menu_loop :: "methods \<Rightarrow> world \<Rightarrow> int \<Rightarrow> worker \<Rightarrow> unit result" where
  "user_menu_loop self env message_user_menu w =
     bind (wait_for_inlinekeyboard_callback (loc_get env) False w) (\<lambda>select w1.
     bind (self_handle_menu_selection self select message_user_menu w1) (\<lambda>_ w2.
     self_user_menu_loop self message_user_menu w2))"

definition handle_menu_selection :: "methods \<Rightarrow> world \<Rightarrow> callback_query or_cancel \<Rightarrow> int \<Rightarrow> worker \<Rightarrow> unit result" where
  "handle_menu_selection self env select message_user_menu w =
     (case select of
        IsCancelSignal \<Rightarrow> Raise (Exception AttributeError) w
      | Value cq \<Rightarrow>
          if cq_data cq = ''cmd_soundcloud'' then
            self_soundcloud self (bot_call (DeleteMessage (chat w) message_user_menu) w)
          else if cq_data cq = ''cmd_spotify'' then
            self_notify_updating self ''Spotify'' (bot_call (DeleteMessage (chat w) message_user_menu) w)
          else if cq_data cq = ''cmd_youtube'' then
            self_notify_updating self ''YouTube'' (bot_call (DeleteMessage (chat w) message_user_menu) w)
          else if cq_data cq = ''cmd_deezer'' then
            self_notify_updating self ''Deezer'' (bot_call (DeleteMessage (chat w) message_user_menu) w)
          else Return () w)"

definition notify_updating :: "methods \<Rightarrow> world \<Rightarrow> string \<Rightarrow> worker \<Rightarrow> unit result" where
  "notify_updating self env service_name w =
     self_user_menu self
       (snd (send_message (loc_get env ''under_updating'' [(''0'', service_name)]) None None w))"

definition get_link :: "methods \<Rightarrow> world \<Rightarrow> nat \<Rightarrow> int \<Rightarrow> worker \<Rightarrow> (string \<times> pyid) option result" where
  "get_link self env i msg_link w =
     (if i < MAX_RETRIES then
        bind (wait_for_regex (loc_get env) regex_any True w) (\<lambda>(link, msg_id) w1.
          case link of
            IsCancelSignal \<Rightarrow>
              bind (self_user_menu self (clean_up_messages i msg_link w1)) (\<lambda>_ w2.
              Raise (Exception TypeError) w2)
          | Value link_text \<Rightarrow>
              (case search_url link_text of
                 None \<Rightarrow> self_get_link self (i + 1) msg_link (handle_invalid_link env i msg_link w1)
               | Some found \<Rightarrow>
                   if str_contains ''soundcloud'' found then Return (Some (found, msg_id)) w1
                   else self_get_link self (i + 1) msg_link (handle_invalid_link env i msg_link w1)))
      else Return None (snd (send_message (loc_get env ''invalid_link'' []) None None w)))"

definition soundcloud :: "methods \<Rightarrow> world \<Rightarrow> worker \<Rightarrow> unit result" where
  "soundcloud self env w =
     (let (msg_link, w1) =
            send_message (loc_get env ''msg_link'' []) (Some (ReplyKeyboardMarkup cancel_keyboard))
              None w
      in bind (self_get_link self 0 msg_link w1) (\<lambda>returned w2.
           case returned of
             None \<Rightarrow> Raise (Exception TypeError) w2
           | Some (link, msg_id) \<Rightarrow>
               except_Exception
                 (let w3 = bot_call (DeleteMessage (chat w2) msg_link) w2;
                      (start_msg, w4) =
                        send_message (loc_get env ''menu_loading'' []) None (Some msg_id) w3
                  in self_handle_extraction self link start_msg w4)
                 (\<lambda>e w5. Return ()
                    (snd (send_message (loc_get env ''invalid_link'' []) None None w5)))))"

definition handle_extraction :: "methods \<Rightarrow> world \<Rightarrow> string \<Rightarrow> int \<Rightarrow> worker \<Rightarrow> unit result" where
  "handle_extraction self env link start_msg w =
     (case extract_info env link of
        Inl e \<Rightarrow> Raise (Exception e) w
      | Inr data \<Rightarrow>
          (case d_type data of
             Some t \<Rightarrow>
               if t = ''playlist'' then self_handle_playlist self data start_msg w
               else if t = ''url'' then self_handle_url self data start_msg w
               else Return () w
           | None \<Rightarrow> self_show_one self data start_msg None w))"

definition handle_playlist :: "methods \<Rightarrow> world \<Rightarrow> data \<Rightarrow> int \<Rightarrow> worker \<Rightarrow> unit result" where
  "handle_playlist self env data start_msg w =
     bind (getitem (d_title data) w) (\<lambda>title' w.
     bind (getitem (d_entries data) w) (\<lambda>entries' w.
     bind (getitem (d_webpage_url data) w) (\<lambda>webpage_url' w.
       (let w1 = bot_call
                   (EditMessageText (chat w) start_msg
                      (loc_get env ''album_caption''
                         [(''title'', title'), (''tracks'', str_nat (length entries')),
                          (''url'', webpage_url')])
                      None) w;
            (collect, w2) =
              send_message
                (loc_get env ''get_information''
                   [(''track'', ''0''), (''all_tracks'', str_nat (length entries'))])
                None None w1
        in bind (collect_tracks env entries' collect entries' [] w2) (\<lambda>tracks w3.
             self_show_many self tracks 0 start_msg
               (bot_call (DeleteMessage (chat w3) collect) w3))))))"

definition handle_url :: "methods \<Rightarrow> world \<Rightarrow> data \<Rightarrow> int \<Rightarrow> worker \<Rightarrow> unit result" where
  "handle_url self env data start_msg w =
     bind (getitem (d_url data) w) (\<lambda>target w.
       case extract_info env target of
         Inl e \<Rightarrow> Raise (Exception e) w
       | Inr data' \<Rightarrow>
           if truthy_str (d_type data') then
             bind (self_handle_playlist self data' start_msg w) (\<lambda>_ w1.
             self_show_one self data' start_msg None w1)
           else self_show_one self data' start_msg None w)"

definition show_one :: "methods \<Rightarrow> world \<Rightarrow> data \<Rightarrow> int \<Rightarrow> data list option \<Rightarrow> worker \<Rightarrow> unit result" where
  "show_one self env data message_id' data_list w =
     bind (getitem (d_thumbnails data) w) (\<lambda>thumbnails' w.
     bind (getitem (d_formats data) w) (\<lambda>formats' w.
       (let best_thumbnail = get_best_thumbnail (requests_get env) thumbnails';
            (format_buttons, format_urls) = create_format_buttons formats';
            keyboard =
              (case thumbnail_button (requests_get env) thumbnails' of
                 None \<Rightarrow> [] | Some b \<Rightarrow> [[b]])
              @ (if format_buttons \<noteq> [] then [format_buttons] else [])
              @ [[\<lparr>btn_text = loc_get env ''menu_cancel'' [], callback_data = ''cmd_cancel''\<rparr>]]
        in
     bind (getitem (d_title data) w) (\<lambda>title' w.
     bind (getitem (d_webpage_url data) w) (\<lambda>webpage_url' w.
     bind (wait_for_inlinekeyboard_callback (loc_get env) True
             (bot_call
                (EditMessageText (chat w) message_id'
                   (''Title: '' @ title' @ [CHR 0x0A] @ ''URL: '' @ webpage_url')
                   (Some (InlineKeyboardMarkup keyboard))) w))
       (\<lambda>select w1.
          case select of
            IsCancelSignal \<Rightarrow>
              (case data_list of
                 None \<Rightarrow> self_user_menu self (bot_call (DeleteMessage (chat w1) message_id') w1)
               | Some data_list' \<Rightarrow> self_show_many self data_list' 0 message_id' w1)
          | Value cq \<Rightarrow>
              if cq_data cq = ''download_cover'' then
                (let w2 = bot_call (DeleteMessage (chat w1) message_id') w1
                 in case best_thumbnail of
                      None \<Rightarrow> Raise (Exception TypeError) w2
                    | Some best \<Rightarrow>
                        (case requests_get env (thumb_url best) of
                           None \<Rightarrow> Raise (Exception RequestException) w2
                         | Some response \<Rightarrow>
                             self_user_menu self
                               (bot_call (SendPhoto (chat w2) (thumb_url best) (cq_data cq)) w2)))
              else if startswith (cq_data cq) ''download_format:'' then
                self_send_file self cq data format_urls message_id' w1
              else Return () w1))))))"

definition show_many :: "methods \<Rightarrow> world \<Rightarrow> data list \<Rightarrow> int \<Rightarrow> int \<Rightarrow> worker \<Rightarrow> unit result" where
  "show_many self env data_list page message_id' w =
     (let start_idx = page * ITEMS_PER_PAGE;
          end_idx = (page + 1) * ITEMS_PER_PAGE;
          page_data = py_slice data_list start_idx end_idx
      in case create_buttons page_data of
           None \<Rightarrow> Raise (Exception KeyError) w
         | Some buttons \<Rightarrow>
             (let keyboard =
                    rows_of_two buttons @ [create_navigation_buttons env page (length data_list)]
              in bind (wait_for_inlinekeyboard_callback (loc_get env) False
                         (bot_call
                            (EditMessageReplyMarkup (chat w) message_id'
                               (Some (InlineKeyboardMarkup keyboard))) w))
                   (\<lambda>select w1.
                      case select of
                        IsCancelSignal \<Rightarrow> Raise (Exception AttributeError) w1
                      | Value cq \<Rightarrow>
                          if cq_data cq = ''cmd_cancel'' then
                            self_user_menu self (bot_call (DeleteMessage (chat w1) message_id') w1)
                          else if cq_data cq \<in> set [''next'', ''prev''] then
                            self_show_many self data_list
                              (if cq_data cq = ''next'' then page + 1 else page - 1) message_id' w1
                          else
                            (case py_index (split_char CHR ''_'' (cq_data cq)) 1 of
                               None \<Rightarrow> Raise (Exception IndexError) w1
                             | Some piece \<Rightarrow>
                                 (case parse_int piece of
                                    None \<Rightarrow> Raise (Exception ValueError) w1
                                  | Some selected_item_idx \<Rightarrow>
                                      (case py_index page_data selected_item_idx of
                                         None \<Rightarrow> Raise (Exception IndexError) w1
                                       | Some selected_data_item \<Rightarrow>
                                           self_show_one self selected_data_item message_id'
                                             (Some data_list) w1))))))"

definition send_file :: "methods \<Rightarrow> world \<Rightarrow> callback_query \<Rightarrow> data \<Rightarrow> string list \<Rightarrow> int \<Rightarrow> worker \<Rightarrow> unit result" where
  "send_file self env select data format_urls message_id' w =
     (case parse_int (drop (length ''download_format:'') (cq_data select)) of
        None \<Rightarrow> Raise (Exception ValueError) w
      | Some format_index \<Rightarrow>
          if format_index < int (length format_urls) then
            (let w1 = bot_call (DeleteMessage (chat w) message_id') w
             in bind (getitem (d_thumbnails data) w1) (\<lambda>thumbnails' w1.
                  case get_best_thumbnail (requests_get env) thumbnails' of
                    None \<Rightarrow> self_user_menu self w1
                  | Some best \<Rightarrow>
                      (case py_index format_urls format_index of
                         None \<Rightarrow> Raise (Exception IndexError) w1
                       | Some audio_url \<Rightarrow>
                           bind (getitem (d_http_headers data) w1) (\<lambda>headers w1.
                           bind (getitem (d_title data) w1) (\<lambda>title' w1.
                           bind (getitem (d_uploader data) w1) (\<lambda>uploader' w1.
                             self_user_menu self
                               (send_audio_file env audio_url title' uploader' (thumb_url best)
                                  w1)))))))
          else Return () w)"

primrec worker_methods :: "nat \<Rightarrow> world \<Rightarrow> methods" where
  "worker_methods 0 env =
     \<lparr>self_user_menu = (\<lambda>x0. OutOfFuel),
      self_user_menu_loop = (\<lambda>x0 x1. OutOfFuel),
      self_handle_menu_selection = (\<lambda>x0 x1 x2. OutOfFuel),
      self_notify_updating = (\<lambda>x0 x1. OutOfFuel),
      self_get_link = (\<lambda>x0 x1 x2. OutOfFuel),
      self_soundcloud = (\<lambda>x0. OutOfFuel),
      self_handle_extraction = (\<lambda>x0 x1 x2. OutOfFuel),
      self_handle_playlist = (\<lambda>x0 x1 x2. OutOfFuel),
      self_handle_url = (\<lambda>x0 x1 x2. OutOfFuel),
      self_show_one = (\<lambda>x0 x1 x2 x3. OutOfFuel),
      self_show_many = (\<lambda>x0 x1 x2 x3. OutOfFuel),
      self_send_file = (\<lambda>x0 x1 x2 x3 x4. OutOfFuel)\<rparr>"
| "worker_methods (Suc n) env =
     \<lparr>self_user_menu = user_menu (worker_methods n env) env,
      self_user_menu_loop = user_menu_loop (worker_methods n env) env,
      self_handle_menu_selection = handle_menu_selection (worker_methods n env) env,
      self_notify_updating = notify_updating (worker_methods n env) env,
      self_get_link = get_link (worker_methods n env) env,
      self_soundcloud = soundcloud (worker_methods n env) env,
      self_handle_extraction = handle_extraction (worker_methods n env) env,
      self_handle_playlist = handle_playlist (worker_methods n env) env,
      self_handle_url = handle_url (worker_methods n env) env,
      self_show_one = show_one (worker_methods n env) env,
      self_show_many = show_many (worker_methods n env) env,
      self_send_file = send_file (worker_methods n env) env\<rparr>"

declare worker_methods.simps [simp del]

subsection \<open>The administrator's menu\<close>

text \<open>
  \<^verbatim>\<open>
  def _admin_menu(self):
      while True:
          self._send_admin_menu()
          selection = self._wait_for_user_selection()
          if selection[0] == self.loc.get("menu_user_mode"):
              self._switch_to_user_menu()

  def _send_admin_menu(self):
      keyboard = [[self.loc.get("menu_user_mode")]]
      self.bot.send_message(self.chat.id, self.loc.get("conversation_open_admin_menu"),
          reply_markup=telegram.ReplyKeyboardMarkup(keyboard, one_time_keyboard=True))

  def _wait_for_user_selection(self):
      return self._wait_for_specific_message([self.loc.get("menu_user_mode")])

  def _switch_to_user_menu(self):
      self.bot.send_message(self.chat.id, self.loc.get("conversation_switch_to_user_mode"))
      self.__user_menu()
  \<close>
\<close>

definition send_admin_menu :: "world \<Rightarrow> worker \<Rightarrow> worker" where
  "send_admin_menu env w =
     snd (send_message (loc_get env ''conversation_open_admin_menu'' [])
            (Some (ReplyKeyboardMarkup [[loc_get env ''menu_user_mode'' []]])) None w)"

definition wait_for_user_selection :: "world \<Rightarrow> worker \<Rightarrow> (string or_cancel \<times> pyid) result" where
  "wait_for_user_selection env w =
     wait_for_specific_message (loc_get env) [loc_get env ''menu_user_mode'' []] False w"

definition switch_to_user_menu :: "methods \<Rightarrow> world \<Rightarrow> worker \<Rightarrow> unit result" where
  "switch_to_user_menu self env w =
     self_user_menu self
       (snd (send_message (loc_get env ''conversation_switch_to_user_mode'' []) None None w))"

primrec admin_menu :: "nat \<Rightarrow> methods \<Rightarrow> world \<Rightarrow> worker \<Rightarrow> unit result" where
  "admin_menu 0 self env w = OutOfFuel"
| "admin_menu (Suc n) self env w =
     bind (wait_for_user_selection env (send_admin_menu env w)) (\<lambda>selection w1.
     bind (if fst selection = Value (loc_get env ''menu_user_mode'' [])
           then switch_to_user_menu self env w1 else Return () w1) (\<lambda>_ w2.
     admin_menu n self env w2))"

subsection \<open>run\<close>

text \<open>
  \<^verbatim>\<open>run()\<close> from the call of \<^verbatim>\<open>_create_localization\<close> on; what stands before it
  (the look-up of the user and of the administrator record, the creation of a new user)
  is storage, and its results are in the \<open>world\<close>.
  \<^verbatim>\<open>
      self._create_localization()
      if new_user:
          admins = self.session.query(db.Admin).all()
          num = self.session.query(db.User).all()
          for admin in admins:
              self.bot.send_message(chat_id=admin.user_id,
                  text=self.loc.get("new_user_in", number=len(num),
                      new=self.user.identifiable_str()))
      try:
          if self.admin is None:
              self.__user_menu()
          else:
              self._admin_menu()
      except Exception as e:
          try:
              self.bot.send_message(self.chat.id, self.loc.get("fatal_conversation_exception"))
          except Exception as ne:
              log.error(f"Failed to notify the user of a conversation exception: {ne}")
          log.error(f"Exception in {self}: {e}")
          traceback.print_exception(*sys.exc_info())
  \<close>
\<close>

fun notify_admins :: "world \<Rightarrow> int list \<Rightarrow> worker \<Rightarrow> worker" where
  "notify_admins env [] w = w"
| "notify_admins env (admin # rest) w =
     notify_admins env rest
       (w\<lparr>sent := sent w @
            [SendMessage admin
               (loc_get env ''new_user_in''
                  [(''number'', str_nat (users_count env)), (''new'', user_identifiable_str env)])
               None None],
          next_message_id := next_message_id w + 1\<rparr>)"

definition run :: "nat \<Rightarrow> world \<Rightarrow> worker \<Rightarrow> unit result" where
  "run n env w =
     (let w1 = create_localization (loc_get env) w;
          w2 = (if new_user env then notify_admins env (admins env) w1 else w1)
      in except_Exception
           (if \<not> is_admin env then self_user_menu (worker_methods n env) w2
            else admin_menu n (worker_methods n env) env w2)
           (\<lambda>e w3. Return ()
              (snd (send_message (loc_get env ''fatal_conversation_exception'' []) None None w3))))"

text \<open>
  The thread of a worker: \<^verbatim>\<open>start()\<close> makes it alive, and it runs \<^verbatim>\<open>run()\<close>. When
  \<^verbatim>\<open>run()\<close> returns, or ends by \<^verbatim>\<open>SystemExit\<close> (which the thread swallows), the thread
  is no longer alive. With the fuel used up there is no answer.
\<close>

definition thread :: "nat \<Rightarrow> world \<Rightarrow> worker \<Rightarrow> worker option" where
  "thread n env w =
     (case run n env (w\<lparr>alive := True\<rparr>) of
        OutOfFuel \<Rightarrow> None
      | Return u w' \<Rightarrow> Some (w'\<lparr>alive := False\<rparr>)
      | Raise e w' \<Rightarrow> Some (w'\<lparr>alive := False\<rparr>))"

section \<open>Concrete worlds and updates\<close>

text \<open>
  Updates as the transport delivers them to a private chat: a text message, and the press
  of an inline button.
\<close>

definition text_update :: "int \<Rightarrow> int \<Rightarrow> string \<Rightarrow> update" where
  "text_update chat_id' message_id' txt =
     \<lparr>update_id = message_id',
      message = Some \<lparr>chat_id = chat_id', chat_type = ''private'', msg_text = Some txt,
                      message_id = message_id'\<rparr>,
      callback_query = None, pre_checkout_query = None\<rparr>"

definition button_update :: "int \<Rightarrow> string \<Rightarrow> string \<Rightarrow> update" where
  "button_update user query_id data' =
     \<lparr>update_id = 0, message = None,
      callback_query = Some \<lparr>cq_id = query_id, cq_from_user = user, cq_data = data'\<rparr>,
      pre_checkout_query = None\<rparr>"

text \<open>
  A world in which every text is shown as its key, the user is an old user and no
  administrator, and the resolver and HTTP are given.
\<close>

definition plain_world :: "(string \<Rightarrow> py_error + data) \<Rightarrow> requests \<Rightarrow> world" where
  "plain_world resolver http =
     \<lparr>loc_get = (\<lambda>key kwargs. key), extract_info = resolver, requests_get = http,
      is_admin = False, new_user = False, admins = [], users_count = 1,
      user_identifiable_str = ''user_7''\<rparr>"

definition no_resolver :: "string \<Rightarrow> py_error + data" where
  "no_resolver link = Inl DownloadError"

definition no_http :: requests where
  "no_http link = None"

text \<open>
  A resolver that knows three links: a redirect to a playlist, the playlist with one entry,
  and the track of that entry. The playlist carries what the resolver gives for a playlist:
  a type, a title, its entries and its page; the second playlist carries thumbnails and
  formats as well.
\<close>

definition track_data :: data where
  "track_data =
     \<lparr>d_type = None, d_title = Some ''Song'', d_webpage_url = Some ''https://soundcloud.com/t1'',
      d_url = None, d_entries = None, d_thumbnails = Some [], d_formats = Some [],
      d_http_headers = Some [], d_uploader = Some ''Band''\<rparr>"

definition playlist_data :: data where
  "playlist_data =
     \<lparr>d_type = Some ''playlist'', d_title = Some ''Album'',
      d_webpage_url = Some ''https://soundcloud.com/set'', d_url = None,
      d_entries = Some [\<lparr>entry_url = ''https://soundcloud.com/t1''\<rparr>],
      d_thumbnails = None, d_formats = None, d_http_headers = None, d_uploader = None\<rparr>"

definition redirect_data :: data where
  "redirect_data =
     \<lparr>d_type = Some ''url'', d_title = None, d_webpage_url = None,
      d_url = Some ''https://soundcloud.com/set'', d_entries = None, d_thumbnails = None,
      d_formats = None, d_http_headers = None, d_uploader = None\<rparr>"

definition redirect_resolver :: "data \<Rightarrow> string \<Rightarrow> py_error + data" where
  "redirect_resolver playlist link =
     (if link = ''https://soundcloud.com/r'' then Inr redirect_data
      else if link = ''https://soundcloud.com/set'' then Inr playlist
      else if link = ''https://soundcloud.com/t1'' then Inr track_data
      else Inl DownloadError)"

section \<open>core.py: the dispatcher\<close>

subsection \<open>State\<close>

text \<open>
  \<^verbatim>\<open>chat_workers\<close> is the dictionary from chat ids to \<^verbatim>\<open>Worker\<close> objects. The objects
  live in a store: a reference is an index into \<open>store\<close>, and a worker that the dictionary
  no longer holds is still in the store, with its thread alive or not. \<open>bot_calls\<close> are the
  calls the dispatcher makes on the bot, \<open>errors_logged\<close> the lines it logs at error level.
\<close>

record dispatcher =
  chat_workers :: "int \<rightharpoonup> nat"
  store :: "worker list"
  bot_calls :: "bot_call list"
  errors_logged :: "string list"
  next_update :: "int option"

text \<open>
  What the dispatcher is given: the default localization, and for each pre-checkout query
  whether it has expired, in which case answering it raises \<^verbatim>\<open>BadRequest\<close>.
\<close>

record outside =
  default_loc :: localization
  query_expired :: "string \<Rightarrow> bool"

definition initial :: dispatcher where
  "initial = \<lparr>chat_workers = Map.empty, store = [], bot_calls = [], errors_logged = [],
              next_update = None\<rparr>"

definition bot :: "bot_call \<Rightarrow> dispatcher \<Rightarrow> dispatcher" where
  "bot c d = d\<lparr>bot_calls := bot_calls d @ [c]\<rparr>"

text \<open>\<^verbatim>\<open>worker.queue.put(x)\<close> on the worker behind a reference.\<close>

definition queue_put :: "nat \<Rightarrow> item \<Rightarrow> dispatcher \<Rightarrow> dispatcher" where
  "queue_put ref x d =
     d\<lparr>store := (store d)[ref := (store d ! ref)\<lparr>queue := queue (store d ! ref) @ [x]\<rparr>]\<rparr>"

subsection \<open>Stopping and starting a worker\<close>

text \<open>
  \<^verbatim>\<open>
  def stop(self, reason: str = ""):
      self.queue.put(StopSignal(reason))
      self.join()
  \<close>
  \<^verbatim>\<open>Thread.join()\<close> returns when the thread has terminated, and not before: after it the
  worker is not alive. (That the thread of a worker ends on a stop signal is the graceful
  stop of the worker; a thread that never ends makes \<^verbatim>\<open>join\<close>, and with it the
  dispatcher, wait for ever, and no later state is seen.)
\<close>

definition join :: "nat \<Rightarrow> dispatcher \<Rightarrow> dispatcher" where
  "join ref d = d\<lparr>store := (store d)[ref := (store d ! ref)\<lparr>alive := False\<rparr>]\<rparr>"

definition stop :: "nat \<Rightarrow> string \<Rightarrow> dispatcher \<Rightarrow> dispatcher" where
  "stop ref reason d = join ref (queue_put ref (StopSignal reason) d)"

text \<open>
  The start command, statement by statement:
  \<^verbatim>\<open>
  old_worker = chat_workers.get(update.message.chat.id)
  if old_worker:
      old_worker.stop("request")
  new_worker = Worker(bot=bot, chat=update.message.chat, ..., daemon=True)
  new_worker.start()
  chat_workers[update.message.chat.id] = new_worker
  continue
  \<close>
  \<open>start_steps\<close> lists the states after each of the four statements; the last one is the
  state after the command.
\<close>

definition stop_old_worker :: "int \<Rightarrow> dispatcher \<Rightarrow> dispatcher" where
  "stop_old_worker c d =
     (case chat_workers d c of None \<Rightarrow> d | Some old_worker \<Rightarrow> stop old_worker ''request'' d)"

definition new_Worker :: "int \<Rightarrow> dispatcher \<Rightarrow> dispatcher" where
  "new_Worker c d = d\<lparr>store := store d @ [Worker_init c]\<rparr>"

definition start :: "nat \<Rightarrow> dispatcher \<Rightarrow> dispatcher" where
  "start ref d = d\<lparr>store := (store d)[ref := (store d ! ref)\<lparr>alive := True\<rparr>]\<rparr>"

definition register :: "int \<Rightarrow> nat \<Rightarrow> dispatcher \<Rightarrow> dispatcher" where
  "register c ref d = d\<lparr>chat_workers := (chat_workers d)(c \<mapsto> ref)\<rparr>"

definition start_steps :: "int \<Rightarrow> dispatcher \<Rightarrow> dispatcher list" where
  "start_steps c d =
     (let d1 = stop_old_worker c d;
          new_worker = length (store d1);
          d2 = new_Worker c d1;
          d3 = start new_worker d2;
          d4 = register c new_worker d3
      in [d1, d2, d3, d4])"

definition start_command :: "int \<Rightarrow> dispatcher \<Rightarrow> dispatcher" where
  "start_command c d = last (start_steps c d)"

subsection \<open>One update\<close>

text \<open>
  The body of \<^verbatim>\<open>for update in updates\<close> has three parts, one for each part of an
  update. A part ends the body (\<^verbatim>\<open>continue\<close>), or goes on to the next part, or raises.
\<close>

datatype 'a flow = Continue 'a | Next 'a

text \<open>
  \<^verbatim>\<open>
  if update.message is not None:
      if update.message.chat.type != "private":
          bot.send_message(update.message.chat.id, default_loc.get("error_nonprivate_chat"))
          continue
      if isinstance(update.message.text, str) and update.message.text.startswith("/start"):
          ...                                           # the start command
          continue
      receiving_worker = chat_workers.get(update.message.chat.id)
      if receiving_worker is None:
          bot.send_message(update.message.chat.id, default_loc.get("error_no_worker_for_chat"),
              reply_markup=ReplyKeyboardRemove())
          continue
      if not receiving_worker.is_ready():
          bot.send_message(update.message.chat.id, default_loc.get("error_worker_not_ready"),
              reply_markup=ReplyKeyboardRemove())
          continue
      if update.message.text == receiving_worker.loc.get("menu_cancel"):
          receiving_worker.queue.put(CancelSignal())
      else:
          receiving_worker.queue.put(update)
  \<close>
\<close>

definition on_message :: "outside \<Rightarrow> update \<Rightarrow> dispatcher \<Rightarrow> py_error + dispatcher flow" where
  "on_message out u d =
     (case message u of
        None \<Rightarrow> Inr (Next d)
      | Some m \<Rightarrow>
          if chat_type m \<noteq> ''private'' then
            Inr (Continue
              (bot (SendMessage (chat_id m) (default_loc out ''error_nonprivate_chat'' []) None None)
                 d))
          else if (case msg_text m of None \<Rightarrow> False | Some t \<Rightarrow> startswith t ''/start'') then
            Inr (Continue (start_command (chat_id m) d))
          else
            (case chat_workers d (chat_id m) of
               None \<Rightarrow>
                 Inr (Continue
                   (bot (SendMessage (chat_id m) (default_loc out ''error_no_worker_for_chat'' [])
                           (Some ReplyKeyboardRemove) None) d))
             | Some receiving_worker \<Rightarrow>
                 (case is_ready (store d ! receiving_worker) of
                    Inl e \<Rightarrow> Inl e
                  | Inr ready \<Rightarrow>
                      if \<not> ready then
                        Inr (Continue
                          (bot (SendMessage (chat_id m)
                                  (default_loc out ''error_worker_not_ready'' [])
                                  (Some ReplyKeyboardRemove) None) d))
                      else
                        (case loc (store d ! receiving_worker) of
                           None \<Rightarrow> Inl AttributeError
                         | Some l \<Rightarrow>
                             if msg_text m = Some (l ''menu_cancel'' []) then
                               Inr (Next (queue_put receiving_worker CancelSignal d))
                             else Inr (Next (queue_put receiving_worker (Update u) d))))))"

text \<open>
  \<^verbatim>\<open>
  if isinstance(update.callback_query, CallbackQuery):
      receiving_worker = chat_workers.get(update.callback_query.from_user.id)
      if receiving_worker is None:
          bot.send_message(update.callback_query.from_user.id,
              default_loc.get("error_no_worker_for_chat"))
          continue
      if update.callback_query.data == "cmd_cancel":
          receiving_worker.queue.put(CancelSignal())
          bot.answer_callback_query(update.callback_query.id)
      else:
          receiving_worker.queue.put(update)
  \<close>
\<close>

definition on_callback_query :: "outside \<Rightarrow> update \<Rightarrow> dispatcher \<Rightarrow> py_error + dispatcher flow" where
  "on_callback_query out u d =
     (case callback_query u of
        None \<Rightarrow> Inr (Next d)
      | Some cq \<Rightarrow>
          (case chat_workers d (cq_from_user cq) of
             None \<Rightarrow>
               Inr (Continue
                 (bot (SendMessage (cq_from_user cq) (default_loc out ''error_no_worker_for_chat'' [])
                         None None) d))
           | Some receiving_worker \<Rightarrow>
               if cq_data cq = ''cmd_cancel'' then
                 Inr (Next (bot (AnswerCallbackQuery (cq_id cq))
                              (queue_put receiving_worker CancelSignal d)))
               else Inr (Next (queue_put receiving_worker (Update u) d))))"

text \<open>
  \<^verbatim>\<open>
  if isinstance(update.pre_checkout_query, PreCheckoutQuery):
      receiving_worker = chat_workers.get(update.pre_checkout_query.from_user.id)
      if (receiving_worker is None
              or update.pre_checkout_query.invoice_payload != receiving_worker.invoice_payload):
          try:
              bot.answer_pre_checkout_query(update.pre_checkout_query.id, ok=False,
                  error_message=default_loc.get("error_invoice_expired"))
          except error.BadRequest:
              getLogger("core").error(
                  "pre-checkout query expired before an answer could be sent!")
          continue
      receiving_worker.queue.put(update)
  \<close>
  Reading \<^verbatim>\<open>receiving_worker.invoice_payload\<close> raises \<^verbatim>\<open>AttributeError\<close> when the
  worker has no such attribute.
\<close>

definition answer_invoice_expired :: "outside \<Rightarrow> pre_checkout_query \<Rightarrow> dispatcher \<Rightarrow> dispatcher" where
  "answer_invoice_expired out q d =
     (if query_expired out (pcq_id q) then
        d\<lparr>errors_logged := errors_logged d @
             [''pre-checkout query expired before an answer could be sent!'']\<rparr>
      else bot (AnswerPreCheckoutQuery (pcq_id q) False (default_loc out ''error_invoice_expired'' []))
             d)"

definition on_pre_checkout_query ::
  "outside \<Rightarrow> update \<Rightarrow> dispatcher \<Rightarrow> py_error + dispatcher flow"
where
  "on_pre_checkout_query out u d =
     (case pre_checkout_query u of
        None \<Rightarrow> Inr (Next d)
      | Some q \<Rightarrow>
          (case chat_workers d (pcq_from_user q) of
             None \<Rightarrow> Inr (Continue (answer_invoice_expired out q d))
           | Some receiving_worker \<Rightarrow>
               (case worker_invoice_payload (store d ! receiving_worker) of
                  None \<Rightarrow> Inl AttributeError
                | Some payload \<Rightarrow>
                    if invoice_payload q \<noteq> payload
                    then Inr (Continue (answer_invoice_expired out q d))
                    else Inr (Next (queue_put receiving_worker (Update u) d)))))"

text \<open>The whole body for one update; an exception leaves the main loop.\<close>

definition dispatch :: "outside \<Rightarrow> update \<Rightarrow> dispatcher \<Rightarrow> py_error + dispatcher" where
  "dispatch out u d =
     (case on_message out u d of
        Inl e \<Rightarrow> Inl e
      | Inr (Continue d1) \<Rightarrow> Inr d1
      | Inr (Next d1) \<Rightarrow>
          (case on_callback_query out u d1 of
             Inl e \<Rightarrow> Inl e
           | Inr (Continue d2) \<Rightarrow> Inr d2
           | Inr (Next d2) \<Rightarrow>
               (case on_pre_checkout_query out u d2 of
                  Inl e \<Rightarrow> Inl e
                | Inr (Continue d3) \<Rightarrow> Inr d3
                | Inr (Next d3) \<Rightarrow> Inr d3)))"

subsection \<open>The threads of the workers\<close>

text \<open>
  While the dispatcher runs, the threads of the workers run too. What a thread does to the
  worker object, as far as the dispatcher can see it: it sets \<^verbatim>\<open>self.loc\<close> (in
  \<^verbatim>\<open>_create_localization\<close>), it takes an item off its queue, and it ends. Only a thread
  that is alive does anything. No thread creates a worker, and none touches the dictionary.
\<close>

datatype thread_event = Localized nat localization | Took nat | Ended nat

definition thread_step :: "thread_event \<Rightarrow> dispatcher \<Rightarrow> dispatcher" where
  "thread_step e d =
     (case e of
        Localized ref l \<Rightarrow>
          if ref < length (store d) \<and> alive (store d ! ref)
          then d\<lparr>store := (store d)[ref := create_localization l (store d ! ref)]\<rparr> else d
      | Took ref \<Rightarrow>
          if ref < length (store d) \<and> alive (store d ! ref)
          then d\<lparr>store := (store d)[ref := (store d ! ref)\<lparr>queue := tl (queue (store d ! ref))\<rparr>]\<rparr>
          else d
      | Ended ref \<Rightarrow>
          if ref < length (store d) \<and> alive (store d ! ref)
          then d\<lparr>store := (store d)[ref := (store d ! ref)\<lparr>alive := False\<rparr>]\<rparr> else d)"

text \<open>
  A run of the system: the updates the dispatcher handles, in order, with the steps of the
  threads in between. A run stops at the first exception of the dispatcher.
\<close>

datatype event = Incoming update | Thread thread_event

fun run_events :: "outside \<Rightarrow> event list \<Rightarrow> dispatcher \<Rightarrow> py_error + dispatcher" where
  "run_events out [] d = Inr d"
| "run_events out (Incoming u # es) d =
     (case dispatch out u d of Inl e \<Rightarrow> Inl e | Inr d' \<Rightarrow> run_events out es d')"
| "run_events out (Thread e # es) d = run_events out es (thread_step e d)"

subsection \<open>Live workers\<close>

text \<open>The references of the workers of a chat whose thread is alive.\<close>

definition live_workers :: "dispatcher \<Rightarrow> int \<Rightarrow> nat list" where
  "live_workers d c =
     filter (\<lambda>ref. alive (store d ! ref) \<and> chat (store d ! ref) = c) [0..<length (store d)]"

text \<open>
  Between two updates, the dictionary holds references into the store, under the chat of
  the worker, and every live worker is the one the dictionary holds for its chat.
\<close>

definition registry_ok :: "dispatcher \<Rightarrow> bool" where
  "registry_ok d =
     ((\<forall>c ref. chat_workers d c = Some ref \<longrightarrow> ref < length (store d) \<and> chat (store d ! ref) = c)
      \<and> (\<forall>ref < length (store d). alive (store d ! ref) \<longrightarrow>
            chat_workers d (chat (store d ! ref)) = Some ref))"

section \<open>Properties of utils.py\<close>

lemma replace_char_append:
  "replace_char c new (xs @ ys) = replace_char c new xs @ replace_char c new ys"
  by (induction xs) simp_all

lemma telegram_html_escape_Nil: "telegram_html_escape [] = []"
  by (simp add: telegram_html_escape_def)

lemma telegram_html_escape_Cons:
  "telegram_html_escape (x # xs) = escaped_char x @ telegram_html_escape xs"
  by (simp add: telegram_html_escape_def escaped_char_def replace_char_append)

lemma telegram_html_escape_concat:
  "telegram_html_escape s = concat (map escaped_char s)"
  by (induction s) (simp_all add: telegram_html_escape_Nil telegram_html_escape_Cons)

lemma length_escaped_char: "1 \<le> length (escaped_char x)"
  by (simp add: escaped_char_def)

lemma length_telegram_html_escape: "length s \<le> length (telegram_html_escape s)"
proof (induction s)
  case Nil
  show ?case by (simp add: telegram_html_escape_Nil)
next
  case (Cons x xs)
  have "1 \<le> length (escaped_char x)" by (rule length_escaped_char)
  with Cons show ?case by (simp add: telegram_html_escape_Cons)
qed

lemma telegram_html_escape_append:
  "telegram_html_escape (xs @ ys) = telegram_html_escape xs @ telegram_html_escape ys"
  by (simp add: telegram_html_escape_concat)

text \<open>
  Claim C10. The replacements run in the order \<open><\<close>, \<open>>\<close>, \<open>&\<close>, \<open>"\<close>, so the
  ampersand that the first two passes write is escaped again by the third: in every input,
  each \<open><\<close> ends up as \<open>&amp;lt;\<close> and each \<open>>\<close> as \<open>&amp;gt;\<close> (the whole result is
  the concatenation of \<open>escaped_char\<close> over the input). In particular the result for the
  one-character string \<open><\<close> is \<open>&amp;lt;\<close> and not \<open>&lt;\<close>, and escaping it a second
  time gives something else again: the function is not idempotent.
\<close>

theorem telegram_html_escape_reescapes_ampersand:
  "telegram_html_escape s = concat (map escaped_char s)
   \<and> telegram_html_escape (pre @ CHR ''<'' # post) =
       telegram_html_escape pre @ ''&amp;lt;'' @ telegram_html_escape post
   \<and> telegram_html_escape (pre @ CHR ''>'' # post) =
       telegram_html_escape pre @ ''&amp;gt;'' @ telegram_html_escape post
   \<and> telegram_html_escape ''<'' = ''&amp;lt;''
   \<and> telegram_html_escape ''<'' \<noteq> ''&lt;''
   \<and> telegram_html_escape (telegram_html_escape ''<'') = ''&amp;amp;lt;''
   \<and> telegram_html_escape (telegram_html_escape ''<'') \<noteq> telegram_html_escape ''<''"
proof -
  have lt: "telegram_html_escape ''<'' = ''&amp;lt;''"
    by (simp add: telegram_html_escape_def)
  have twice: "telegram_html_escape ''&amp;lt;'' = ''&amp;amp;lt;''"
    by (simp add: telegram_html_escape_def)
  have mid_lt: "telegram_html_escape (pre @ CHR ''<'' # post) =
      telegram_html_escape pre @ ''&amp;lt;'' @ telegram_html_escape post"
    by (simp add: telegram_html_escape_append telegram_html_escape_Cons escaped_char_def)
  have mid_gt: "telegram_html_escape (pre @ CHR ''>'' # post) =
      telegram_html_escape pre @ ''&amp;gt;'' @ telegram_html_escape post"
    by (simp add: telegram_html_escape_append telegram_html_escape_Cons escaped_char_def)
  show ?thesis
    using lt twice mid_lt mid_gt by (simp add: telegram_html_escape_concat)
qed

theorem telegram_html_escape_reescapes_ampersand_witness:
  "telegram_html_escape ''a<b>&'' = ''a&amp;lt;b&amp;gt;&amp;''
   \<and> telegram_html_escape (''a'' @ CHR ''<'' # ''b'') = ''a&amp;lt;b''"
  using telegram_html_escape_reescapes_ampersand [of "''a<b>&''" "''a''" "''b''"]
  by (simp add: escaped_char_def telegram_html_escape_def)

section \<open>Properties of the format buttons\<close>

subsection \<open>The key of a format\<close>

lemma of_char_digit_char: "d < 10 \<Longrightarrow> of_char (digit_char d) = (48 + d :: nat)"
  by (simp add: digit_char_def)

lemma digits_value_str_nat: "digits_value (str_nat n) = n"
proof (induction n rule: str_nat.induct)
  case (1 n)
  show ?case
  proof (cases "n < 10")
    case True
    then show ?thesis
      by (subst str_nat.simps) (simp add: digits_value_def of_char_digit_char)
  next
    case False
    have m: "n mod 10 < 10" by simp
    from False 1 have ih: "digits_value (str_nat (n div 10)) = n div 10" by simp
    have "digits_value (str_nat n) = 10 * digits_value (str_nat (n div 10)) + n mod 10"
      using False by (subst str_nat.simps) (simp add: digits_value_def of_char_digit_char [OF m])
    then show ?thesis using ih by simp
  qed
qed

lemma str_nat_inj: "str_nat m = str_nat n \<Longrightarrow> m = n"
  by (metis digits_value_str_nat)

lemma digit_char_neq:
  assumes d: "d < 10"
  shows "digit_char d \<noteq> CHR '' ''" and "digit_char d \<noteq> CHR ''-''"
proof -
  have v: "of_char (digit_char d) = (48 + d :: nat)" by (rule of_char_digit_char [OF d])
  show "digit_char d \<noteq> CHR '' ''"
  proof
    assume "digit_char d = CHR '' ''"
    then have "of_char (digit_char d) = (32::nat)" by simp
    with v show False by simp
  qed
  show "digit_char d \<noteq> CHR ''-''"
  proof
    assume "digit_char d = CHR ''-''"
    then have "of_char (digit_char d) = (45::nat)" by simp
    with v show False by simp
  qed
qed

lemma str_nat_chars: "CHR '' '' \<notin> set (str_nat n) \<and> CHR ''-'' \<notin> set (str_nat n)"
proof (induction n rule: str_nat.induct)
  case (1 n)
  show ?case
  proof (cases "n < 10")
    case True
    then show ?thesis
      using digit_char_neq [OF True] by (subst (1 2) str_nat.simps) auto
  next
    case False
    have m: "n mod 10 < 10" by simp
    show ?thesis
      using False 1 digit_char_neq [OF m] by (subst (1 2) str_nat.simps) auto
  qed
qed

lemma str_nat_not_Nil: "str_nat n \<noteq> []"
  by (subst str_nat.simps) simp

lemma hd_str_nat: "hd (str_nat n) \<noteq> CHR ''-''"
  using str_nat_chars [of n] str_nat_not_Nil [of n] by (cases "str_nat n") auto

lemma str_int_inj: "str_int i = str_int j \<Longrightarrow> i = j"
proof -
  assume e: "str_int i = str_int j"
  show ?thesis
  proof (cases "i < 0")
    case True
    show ?thesis
    proof (cases "j < 0")
      case j: True
      from e True j have "str_nat (nat (- i)) = str_nat (nat (- j))" by (simp add: str_int_def)
      then have "nat (- i) = nat (- j)" by (rule str_nat_inj)
      with True j show ?thesis by simp
    next
      case j: False
      from e True j have "hd (str_nat (nat j)) = CHR ''-''" by (simp add: str_int_def) (metis list.sel(1))
      with hd_str_nat show ?thesis by blast
    qed
  next
    case False
    show ?thesis
    proof (cases "j < 0")
      case j: True
      from e False j have "hd (str_nat (nat i)) = CHR ''-''" by (simp add: str_int_def)
      with hd_str_nat show ?thesis by blast
    next
      case j: False
      from e False j have "str_nat (nat i) = str_nat (nat j)" by (simp add: str_int_def)
      then have "nat i = nat j" by (rule str_nat_inj)
      with False j show ?thesis by simp
    qed
  qed
qed

lemma str_int_no_space: "CHR '' '' \<notin> set (str_int i)"
  using str_nat_chars by (simp add: str_int_def)

lemma split_at_space:
  assumes "CHR '' '' \<notin> set a" "CHR '' '' \<notin> set b" "a @ CHR '' '' # x = b @ CHR '' '' # y"
  shows "a = b \<and> x = y"
proof -
  have "takeWhile (\<lambda>c. c \<noteq> CHR '' '') (a @ CHR '' '' # x) = a"
    using assms(1) by (subst takeWhile_append2) auto
  moreover have "takeWhile (\<lambda>c. c \<noteq> CHR '' '') (b @ CHR '' '' # y) = b"
    using assms(2) by (subst takeWhile_append2) auto
  ultimately have "a = b" using assms(3) by simp
  with assms(3) show ?thesis by simp
qed

lemma format_key_eq_iff:
  "format_key f = format_key g \<longleftrightarrow> abr f = abr g \<and> upper (ext f) = upper (ext g)"
proof
  assume "format_key f = format_key g"
  then have "str_int (abr f) @ CHR '' '' # (''kbps '' @ upper (ext f)) =
      str_int (abr g) @ CHR '' '' # (''kbps '' @ upper (ext g))"
    by (simp add: format_key_def)
  from split_at_space [OF str_int_no_space str_int_no_space this]
  show "abr f = abr g \<and> upper (ext f) = upper (ext g)"
    by (auto dest: str_int_inj)
next
  assume "abr f = abr g \<and> upper (ext f) = upper (ext g)"
  then show "format_key f = format_key g" by (simp add: format_key_def)
qed

subsection \<open>The loop of \_create\_format\_buttons\<close>

lemma btn_text_format_button [simp]: "btn_text (format_button k n) = ''Download '' @ k"
  by (simp add: format_button_def)

lemma callback_data_format_button [simp]:
  "callback_data (format_button k n) = ''download_format:'' @ str_nat n"
  by (simp add: format_button_def)

lemma format_buttons_loop_fst_text:
  "btn_text ` set (fst (format_buttons_loop fs bs us seen)) =
     btn_text ` set bs \<union> (\<lambda>f. ''Download '' @ format_key f) ` {f \<in> set fs. format_accepted f \<and> format_key f \<notin> seen}"
proof (induction fs arbitrary: bs us seen)
  case Nil
  show ?case by simp
next
  case (Cons f fs)
  show ?case
  proof (cases "format_accepted f \<and> format_key f \<notin> seen")
    case True
    then have eq: "format_buttons_loop (f # fs) bs us seen =
        format_buttons_loop fs (bs @ [format_button (format_key f) (length us)]) (us @ [url f])
          (insert (format_key f) seen)"
      by simp
    show ?thesis unfolding eq Cons.IH using True by auto
  next
    case False
    then have eq: "format_buttons_loop (f # fs) bs us seen = format_buttons_loop fs bs us seen"
      by auto
    show ?thesis unfolding eq Cons.IH using False by auto
  qed
qed

lemma format_buttons_loop_distinct:
  "distinct (map btn_text bs) \<Longrightarrow> set (map btn_text bs) = (\<lambda>k. ''Download '' @ k) ` seen \<Longrightarrow>
   distinct (map btn_text (fst (format_buttons_loop fs bs us seen)))"
proof (induction fs arbitrary: bs us seen)
  case Nil
  then show ?case by simp
next
  case (Cons f fs)
  show ?case
  proof (cases "format_accepted f \<and> format_key f \<notin> seen")
    case True
    have d: "distinct (map btn_text (bs @ [format_button (format_key f) (length us)]))"
      using Cons.prems True by auto
    have s: "set (map btn_text (bs @ [format_button (format_key f) (length us)])) =
        (\<lambda>k. ''Download '' @ k) ` insert (format_key f) seen"
      using Cons.prems by simp
    show ?thesis using True Cons.IH [OF d s] by simp
  next
    case False
    then show ?thesis using Cons.IH [OF Cons.prems] by auto
  qed
qed

lemma format_buttons_loop_lengths:
  "length bs = length us \<Longrightarrow> length (snd (format_buttons_loop fs bs us seen)) = length (fst (format_buttons_loop fs bs us seen))"
  by (induction fs arbitrary: bs us seen) simp_all

lemma format_buttons_loop_reject:
  "\<not> format_accepted f \<Longrightarrow> format_buttons_loop (pre @ f # post) bs us seen = format_buttons_loop (pre @ post) bs us seen"
  by (induction pre arbitrary: bs us seen) simp_all

lemma format_buttons_loop_callback:
  "length bs = length us \<Longrightarrow> \<forall>i < length bs. callback_data (bs ! i) = ''download_format:'' @ str_nat i \<Longrightarrow>
   i < length (fst (format_buttons_loop fs bs us seen)) \<Longrightarrow>
   callback_data (fst (format_buttons_loop fs bs us seen) ! i) = ''download_format:'' @ str_nat i"
proof (induction fs arbitrary: bs us seen)
  case Nil
  then show ?case by simp
next
  case (Cons f fs)
  show ?case
  proof (cases "format_accepted f \<and> format_key f \<notin> seen")
    case True
    let ?bs = "bs @ [format_button (format_key f) (length us)]"
    have l: "length ?bs = length (us @ [url f])" using Cons.prems by simp
    have c: "\<forall>i < length ?bs. callback_data (?bs ! i) = ''download_format:'' @ str_nat i"
      using Cons.prems by (auto simp: nth_append less_Suc_eq)
    show ?thesis using True Cons.IH [OF l c] Cons.prems(3) by simp
  next
    case False
    then have eq: "format_buttons_loop (f # fs) bs us seen = format_buttons_loop fs bs us seen"
      by auto
    show ?thesis using Cons.IH [OF Cons.prems(1,2)] Cons.prems(3) unfolding eq by blast
  qed
qed

subsection \<open>One button per key\<close>

lemma create_format_buttons_count:
  "length (fst (create_format_buttons formats)) =
     card (format_key ` {f \<in> set formats. format_accepted f})"
proof -
  let ?bs = "fst (create_format_buttons formats)"
  let ?S = "{f \<in> set formats. format_accepted f}"
  have d: "distinct (map btn_text ?bs)"
    unfolding create_format_buttons_def by (rule format_buttons_loop_distinct) simp_all
  have s: "btn_text ` set ?bs = (\<lambda>f. ''Download '' @ format_key f) ` ?S"
    unfolding create_format_buttons_def by (simp add: format_buttons_loop_fst_text)
  have "length ?bs = length (map btn_text ?bs)" by simp
  also have "\<dots> = card (set (map btn_text ?bs))" using d by (simp only: distinct_card)
  also have "\<dots> = card ((\<lambda>k. ''Download '' @ k) ` format_key ` ?S)"
    using s by (simp add: image_image)
  also have "\<dots> = card (format_key ` ?S)"
    by (rule card_image) (simp add: inj_on_def)
  finally show ?thesis .
qed

text \<open>
  Claim C5, as the code has it. The buttons of \<open>create_format_buttons\<close> carry pairwise
  different keys, and the keys are exactly those of the accepted formats: the formats whose
  bitrate is strictly above 64 kbps and whose URL does not contain \<open>.m3u8\<close>. So there is
  exactly one button per distinct key among the accepted formats (as many buttons as keys,
  and as many URLs as buttons), where two formats have the same key exactly when they agree
  on the bitrate and on the upper-cased container. A format whose bitrate is at most 64 kbps
  or whose URL contains \<open>.m3u8\<close> is excluded: with or without it the result is the same.
  Two accepted formats with the same bitrate and container and different URLs give a single
  button, that of the first.
\<close>

theorem create_format_buttons_one_per_key:
  "distinct (map btn_text (fst (create_format_buttons formats)))
   \<and> btn_text ` set (fst (create_format_buttons formats)) =
       (\<lambda>f. ''Download '' @ format_key f) `
         {f \<in> set formats. 64 < abr f \<and> \<not> str_contains ''.m3u8'' (url f)}
   \<and> length (fst (create_format_buttons formats)) =
       card (format_key ` {f \<in> set formats. 64 < abr f \<and> \<not> str_contains ''.m3u8'' (url f)})
   \<and> length (snd (create_format_buttons formats)) = length (fst (create_format_buttons formats))
   \<and> (format_key f = format_key g \<longleftrightarrow> abr f = abr g \<and> upper (ext f) = upper (ext g))
   \<and> (abr f \<le> 64 \<or> str_contains ''.m3u8'' (url f) \<longrightarrow>
        create_format_buttons (pre @ f # post) = create_format_buttons (pre @ post))
   \<and> (64 < abr f \<and> \<not> str_contains ''.m3u8'' (url f) \<and> \<not> str_contains ''.m3u8'' u \<longrightarrow>
        create_format_buttons [f, f\<lparr>url := u\<rparr>] = ([format_button (format_key f) 0], [url f]))"
proof -
  have acc: "{f \<in> set formats. 64 < abr f \<and> \<not> str_contains ''.m3u8'' (url f)} =
      {f \<in> set formats. format_accepted f}"
    by (simp add: format_accepted_def)
  have d: "distinct (map btn_text (fst (create_format_buttons formats)))"
    unfolding create_format_buttons_def by (rule format_buttons_loop_distinct) simp_all
  have s: "btn_text ` set (fst (create_format_buttons formats)) =
      (\<lambda>f. ''Download '' @ format_key f) ` {f \<in> set formats. format_accepted f}"
    unfolding create_format_buttons_def by (simp add: format_buttons_loop_fst_text)
  have l: "length (snd (create_format_buttons formats)) = length (fst (create_format_buttons formats))"
    unfolding create_format_buttons_def by (rule format_buttons_loop_lengths) simp
  have r: "abr f \<le> 64 \<or> str_contains ''.m3u8'' (url f) \<longrightarrow>
        create_format_buttons (pre @ f # post) = create_format_buttons (pre @ post)"
  proof
    assume "abr f \<le> 64 \<or> str_contains ''.m3u8'' (url f)"
    then have "\<not> format_accepted f" by (auto simp: format_accepted_def)
    then show "create_format_buttons (pre @ f # post) = create_format_buttons (pre @ post)"
      unfolding create_format_buttons_def by (rule format_buttons_loop_reject)
  qed
  have t: "64 < abr f \<and> \<not> str_contains ''.m3u8'' (url f) \<and> \<not> str_contains ''.m3u8'' u \<longrightarrow>
        create_format_buttons [f, f\<lparr>url := u\<rparr>] = ([format_button (format_key f) 0], [url f])"
    by (simp add: create_format_buttons_def format_accepted_def format_key_def)
  show ?thesis
    unfolding acc using d s l r t create_format_buttons_count [of formats] format_key_eq_iff [of f g]
    by blast
qed

text \<open>The statement above at two 128 kbps MP3 formats with different URLs, and at a
  48 kbps format.\<close>

theorem create_format_buttons_one_per_key_witness:
  "create_format_buttons
     [\<lparr>abr = 128, ext = ''mp3'', url = ''http://a/x.mp3''\<rparr>,
      \<lparr>abr = 128, ext = ''mp3'', url = ''http://b/x.mp3''\<rparr>] =
     ([\<lparr>btn_text = ''Download 128 kbps MP3'', callback_data = ''download_format:0''\<rparr>],
      [''http://a/x.mp3''])
   \<and> create_format_buttons
     ([\<lparr>abr = 128, ext = ''mp3'', url = ''http://a/x.mp3''\<rparr>] @
      \<lparr>abr = 48, ext = ''mp3'', url = ''http://a/y.mp3''\<rparr> # []) =
     create_format_buttons ([\<lparr>abr = 128, ext = ''mp3'', url = ''http://a/x.mp3''\<rparr>] @ [])"
proof -
  let ?f = "\<lparr>abr = 128, ext = ''mp3'', url = ''http://a/x.mp3''\<rparr>"
  let ?g = "\<lparr>abr = 48, ext = ''mp3'', url = ''http://a/y.mp3''\<rparr>"
  have k: "format_key ?f = ''128 kbps MP3''"
    by code_simp
  have a: "64 < abr ?f \<and> \<not> str_contains ''.m3u8'' (url ?f) \<and> \<not> str_contains ''.m3u8'' ''http://b/x.mp3''"
    by (simp add: startswith_def)
  have b: "abr ?g \<le> 64 \<or> str_contains ''.m3u8'' (url ?g)" by simp
  have n0: "str_nat 0 = ''0''" by code_simp
  from create_format_buttons_one_per_key [of "[?f]" ?f ?f "[]" "[]" "''http://b/x.mp3''"] a
  have 1: "create_format_buttons [?f, ?f\<lparr>url := ''http://b/x.mp3''\<rparr>] = ([format_button (format_key ?f) 0], [url ?f])"
    by blast
  from create_format_buttons_one_per_key [of "[?f]" ?g ?g "[?f]" "[]" "[]"] b
  have 2: "create_format_buttons ([?f] @ ?g # []) = create_format_buttons ([?f] @ [])"
    by blast
  show ?thesis using 1 2 k n0 by (simp add: format_button_def)
qed

text \<open>
  Claim C5 as the specification words it excludes only the formats below 64 kbps (and the
  streaming manifests). A format of exactly 64 kbps is not excluded by that rule, and yet
  the code gives it no button: the test is \<^verbatim>\<open>abr > 64\<close>.
\<close>

theorem create_format_buttons_at_64_counterexample:
  "\<not> spec_format_excluded \<lparr>abr = 64, ext = ''mp3'', url = ''http://a/x.mp3''\<rparr>
   \<and> create_format_buttons [\<lparr>abr = 64, ext = ''mp3'', url = ''http://a/x.mp3''\<rparr>] = ([], [])"
  by (simp add: spec_format_excluded_def create_format_buttons_def format_accepted_def startswith_def)

section \<open>Properties of the thumbnail choice\<close>

lemma best_thumbnail_loop_None_iff:
  "best_thumbnail_loop get ts best = None \<longleftrightarrow> best = None \<and> (\<forall>t \<in> set ts. resolution t = None)"
  by (induction ts arbitrary: best) (auto split: option.splits)

lemma get_best_thumbnail_None_iff:
  "get_best_thumbnail get ts = None \<longleftrightarrow> (\<forall>t \<in> set ts. resolution t = None)"
  by (simp add: get_best_thumbnail_def best_thumbnail_loop_None_iff)

text \<open>The button is offered exactly when some thumbnail carries resolution metadata.\<close>

lemma thumbnail_button_offered_iff:
  "thumbnail_button get ts \<noteq> None \<longleftrightarrow> (\<exists>t \<in> set ts. resolution t \<noteq> None)"
  using get_best_thumbnail_None_iff [of get ts]
  by (auto simp: thumbnail_button_def split: option.splits)

text \<open>
  Claim C4 at concrete thumbnails. The small thumbnail is a PNG, so it fails
  \<open>check_thumbnail\<close>; the big one is a JPEG of 1000 bytes and passes. Alone, the small
  thumbnail is chosen and the button is offered although the chosen thumbnail fails the
  validation. Followed by the big one, the small thumbnail stays chosen, because the test
  validates the thumbnail chosen so far and not the candidate: the result is neither the
  widest thumbnail nor a validated one.
\<close>

theorem get_best_thumbnail_unvalidated:
  "(let get = (\<lambda>u. if u = ''http://img/big.jpg''
                 then Some \<lparr>status_code = 200, content_type = Some ''image/jpeg'', content_length = Number 1000\<rparr>
                 else if u = ''http://img/small.png''
                 then Some \<lparr>status_code = 200, content_type = Some ''image/png'', content_length = Number 1000\<rparr>
                 else None);
        small = \<lparr>resolution = Some ''100x100'', width = 100, thumb_url = ''http://img/small.png''\<rparr>;
        big = \<lparr>resolution = Some ''500x500'', width = 500, thumb_url = ''http://img/big.jpg''\<rparr>
    in check_thumbnail get (thumb_url small) = None
     \<and> check_thumbnail get (thumb_url big) = Some ''http://img/big.jpg''
     \<and> get_best_thumbnail get [small] = Some small
     \<and> thumbnail_button get [small] =
         Some \<lparr>btn_text = ''Download Cover'', callback_data = ''download_cover''\<rparr>
     \<and> get_best_thumbnail get [small, big] = Some small
     \<and> get_best_thumbnail get [big, small] = Some big)"
  by (simp add: Let_def check_thumbnail_def get_best_thumbnail_def thumbnail_button_def startswith_def)

section \<open>Sequencing and handlers\<close>

lemma bind_Return [simp]: "bind (Return x w) f = f x w"
  by (simp add: bind_def)

lemma bind_Raise [simp]: "bind (Raise e w) f = Raise e w"
  by (simp add: bind_def)

lemma bind_OutOfFuel [simp]: "bind OutOfFuel f = OutOfFuel"
  by (simp add: bind_def)

lemma bind_cong [cong]: "r = r' \<Longrightarrow> bind r f = bind r' f"
  by simp

lemma except_Exception_Return [simp]: "except_Exception (Return x w) h = Return x w"
  by (simp add: except_Exception_def)

lemma except_Exception_Exception [simp]: "except_Exception (Raise (Exception e) w) h = h e w"
  by (simp add: except_Exception_def)

lemma except_Exception_SystemExit [simp]:
  "except_Exception (Raise (SystemExit c) w) h = Raise (SystemExit c) w"
  by (simp add: except_Exception_def)

lemma except_Exception_OutOfFuel [simp]: "except_Exception OutOfFuel h = OutOfFuel"
  by (simp add: except_Exception_def)

lemma except_Exception_cong [cong]: "r = r' \<Longrightarrow> except_Exception r h = except_Exception r' h"
  by simp

lemma getitem_Some [simp]: "getitem (Some x) w = Return x w"
  by (simp add: getitem_def)

lemma getitem_None [simp]: "getitem None w = Raise (Exception KeyError) w"
  by (simp add: getitem_def)

section \<open>Properties of the mailbox\<close>

lemma receive_next_update_Nil:
  "receive_next_update lg (w\<lparr>queue := []\<rparr>) = graceful_stop lg ''timeout'' (w\<lparr>queue := []\<rparr>)"
  by (simp add: receive_next_update_def)

lemma receive_next_update_Cancel:
  "receive_next_update lg (w\<lparr>queue := CancelSignal # rest\<rparr>) = Return CancelSignal (w\<lparr>queue := rest\<rparr>)"
  by (simp add: receive_next_update_def)

lemma receive_next_update_Stop:
  "receive_next_update lg (w\<lparr>queue := StopSignal reason # rest\<rparr>) = graceful_stop lg reason (w\<lparr>queue := rest\<rparr>)"
  by (simp add: receive_next_update_def)

lemma receive_next_update_Update:
  "receive_next_update lg (w\<lparr>queue := Update u # rest\<rparr>) = Return (Update u) (w\<lparr>queue := rest\<rparr>)"
  by (simp add: receive_next_update_def)

lemma graceful_stop_eq:
  "graceful_stop lg reason w =
     Raise (SystemExit 0)
       ((if reason = ''timeout''
         then w\<lparr>sent := sent w @
                  [SendMessage (chat w) (lg ''conversation_expired'' []) (Some ReplyKeyboardRemove) None],
                next_message_id := next_message_id w + 1\<rparr>
         else w)\<lparr>session_open := False\<rparr>)"
  by (simp add: graceful_stop_def close_resources_def notify_session_expiration_def send_message_def)

section \<open>The methods at a given fuel\<close>

lemma worker_methods_Suc [simp]:
  "self_user_menu (worker_methods (Suc n) env) = user_menu (worker_methods n env) env"
  "self_user_menu_loop (worker_methods (Suc n) env) = user_menu_loop (worker_methods n env) env"
  "self_handle_menu_selection (worker_methods (Suc n) env) = handle_menu_selection (worker_methods n env) env"
  "self_notify_updating (worker_methods (Suc n) env) = notify_updating (worker_methods n env) env"
  "self_get_link (worker_methods (Suc n) env) = get_link (worker_methods n env) env"
  "self_soundcloud (worker_methods (Suc n) env) = soundcloud (worker_methods n env) env"
  "self_handle_extraction (worker_methods (Suc n) env) = handle_extraction (worker_methods n env) env"
  "self_handle_playlist (worker_methods (Suc n) env) = handle_playlist (worker_methods n env) env"
  "self_handle_url (worker_methods (Suc n) env) = handle_url (worker_methods n env) env"
  "self_show_one (worker_methods (Suc n) env) = show_one (worker_methods n env) env"
  "self_show_many (worker_methods (Suc n) env) = show_many (worker_methods n env) env"
  "self_send_file (worker_methods (Suc n) env) = send_file (worker_methods n env) env"
  by (simp_all add: worker_methods.simps)

section \<open>Graceful stop and cancellation\<close>

text \<open>
  Claim C7. When \<^verbatim>\<open>queue.get\<close> times out (the queue of the model is empty), receiving is
  the graceful stop with the reason \<open>timeout\<close>: no exception of the queue leaves
  \<open>receive_next_update\<close>. A stop signal with any reason is the graceful stop with that
  reason. The graceful stop sends the session-expired notice with
  \<^verbatim>\<open>ReplyKeyboardRemove\<close> exactly when the reason is \<open>timeout\<close>, and in every case it
  closes the session and leaves by \<^verbatim>\<open>SystemExit\<close>. The three waits pass the stop on, and
  so do sequencing and the handlers \<^verbatim>\<open>except Exception\<close>, so that the stop ends the
  thread of the worker.
\<close>

theorem timeout_is_graceful_stop:
  "receive_next_update lg (w\<lparr>queue := []\<rparr>) = graceful_stop lg ''timeout'' (w\<lparr>queue := []\<rparr>)
   \<and> receive_next_update lg (w\<lparr>queue := StopSignal reason # rest\<rparr>) =
       graceful_stop lg reason (w\<lparr>queue := rest\<rparr>)
   \<and> graceful_stop lg reason w =
       Raise (SystemExit 0)
         ((if reason = ''timeout''
           then w\<lparr>sent := sent w @
                    [SendMessage (chat w) (lg ''conversation_expired'' []) (Some ReplyKeyboardRemove) None],
                  next_message_id := next_message_id w + 1\<rparr>
           else w)\<lparr>session_open := False\<rparr>)
   \<and> wait_for_inlinekeyboard_callback lg c (w\<lparr>queue := []\<rparr>) = graceful_stop lg ''timeout'' (w\<lparr>queue := []\<rparr>)
   \<and> wait_for_regex lg regex c (w\<lparr>queue := []\<rparr>) = graceful_stop lg ''timeout'' (w\<lparr>queue := []\<rparr>)
   \<and> wait_for_specific_message lg items c (w\<lparr>queue := []\<rparr>) = graceful_stop lg ''timeout'' (w\<lparr>queue := []\<rparr>)
   \<and> wait_for_inlinekeyboard_callback lg c (w\<lparr>queue := StopSignal reason # rest\<rparr>) =
       graceful_stop lg reason (w\<lparr>queue := rest\<rparr>)
   \<and> wait_for_regex lg regex c (w\<lparr>queue := StopSignal reason # rest\<rparr>) =
       graceful_stop lg reason (w\<lparr>queue := rest\<rparr>)
   \<and> wait_for_specific_message lg items c (w\<lparr>queue := StopSignal reason # rest\<rparr>) =
       graceful_stop lg reason (w\<lparr>queue := rest\<rparr>)
   \<and> bind (graceful_stop lg reason w) f = graceful_stop lg reason w
   \<and> except_Exception (graceful_stop lg reason w) handler = graceful_stop lg reason w"
proof (intro conjI)
  show "receive_next_update lg (w\<lparr>queue := []\<rparr>) =
      (graceful_stop lg ''timeout'' (w\<lparr>queue := []\<rparr>) :: item result)"
    by (rule receive_next_update_Nil)
  show "receive_next_update lg (w\<lparr>queue := StopSignal reason # rest\<rparr>) =
      graceful_stop lg reason (w\<lparr>queue := rest\<rparr>)"
    by (rule receive_next_update_Stop)
  show "(graceful_stop lg reason w :: 'a result) =
       Raise (SystemExit 0)
         ((if reason = ''timeout''
           then w\<lparr>sent := sent w @
                    [SendMessage (chat w) (lg ''conversation_expired'' []) (Some ReplyKeyboardRemove) None],
                  next_message_id := next_message_id w + 1\<rparr>
           else w)\<lparr>session_open := False\<rparr>)"
    by (rule graceful_stop_eq)
  show "wait_for_inlinekeyboard_callback lg c (w\<lparr>queue := []\<rparr>) =
      graceful_stop lg ''timeout'' (w\<lparr>queue := []\<rparr>)"
    by (subst wait_for_inlinekeyboard_callback.simps)
      (simp add: receive_next_update_Nil graceful_stop_eq)
  show "wait_for_regex lg regex c (w\<lparr>queue := []\<rparr>) =
      graceful_stop lg ''timeout'' (w\<lparr>queue := []\<rparr>)"
    by (subst wait_for_regex.simps) (simp add: receive_next_update_Nil graceful_stop_eq)
  show "wait_for_specific_message lg items c (w\<lparr>queue := []\<rparr>) =
      graceful_stop lg ''timeout'' (w\<lparr>queue := []\<rparr>)"
    by (subst wait_for_specific_message.simps) (simp add: receive_next_update_Nil graceful_stop_eq)
  show "wait_for_inlinekeyboard_callback lg c (w\<lparr>queue := StopSignal reason # rest\<rparr>) =
      graceful_stop lg reason (w\<lparr>queue := rest\<rparr>)"
    by (subst wait_for_inlinekeyboard_callback.simps)
      (simp add: receive_next_update_Stop graceful_stop_eq)
  show "wait_for_regex lg regex c (w\<lparr>queue := StopSignal reason # rest\<rparr>) =
      graceful_stop lg reason (w\<lparr>queue := rest\<rparr>)"
    by (subst wait_for_regex.simps) (simp add: receive_next_update_Stop graceful_stop_eq)
  show "wait_for_specific_message lg items c (w\<lparr>queue := StopSignal reason # rest\<rparr>) =
      graceful_stop lg reason (w\<lparr>queue := rest\<rparr>)"
    by (subst wait_for_specific_message.simps) (simp add: receive_next_update_Stop graceful_stop_eq)
  show "bind (graceful_stop lg reason w) f = graceful_stop lg reason w"
    by (simp add: graceful_stop_eq)
  show "except_Exception (graceful_stop lg reason w) handler = graceful_stop lg reason w"
    by (simp add: graceful_stop_eq)
qed

text \<open>The statement at a worker for chat 7 whose queue holds a stop request.\<close>

theorem timeout_is_graceful_stop_witness:
  "receive_next_update (\<lambda>key kwargs. key) ((Worker_init 7)\<lparr>queue := []\<rparr>) =
     (Raise (SystemExit 0)
       ((Worker_init 7)\<lparr>sent := [SendMessage 7 ''conversation_expired'' (Some ReplyKeyboardRemove) None],
                         next_message_id := 2, session_open := False\<rparr>) :: item result)
   \<and> wait_for_inlinekeyboard_callback (\<lambda>key kwargs. key) True
       ((Worker_init 7)\<lparr>queue := [StopSignal ''request'']\<rparr>) =
     Raise (SystemExit 0) ((Worker_init 7)\<lparr>session_open := False\<rparr>)"
  using timeout_is_graceful_stop
      [where lg = "\<lambda>key kwargs. key" and w = "Worker_init 7" and reason = "''timeout''"
         and rest = "[]" and c = True and regex = regex_any and items = "[]"
         and f = "\<lambda>x w. Return x w" and handler = "\<lambda>e w. Return CancelSignal w"]
    timeout_is_graceful_stop
      [where lg = "\<lambda>key kwargs. key" and w = "(Worker_init 7)\<lparr>queue := []\<rparr>"
         and reason = "''request''" and rest = "[]" and c = True and regex = regex_any
         and items = "[]" and f = "\<lambda>x w. Return x w"
         and handler = "\<lambda>e w. Return CancelSignal w"]
  by (simp add: Worker_init_def graceful_stop_eq)

text \<open>
  A whole thread: the user is shown the menu and sends nothing. The thread ends with the
  notice sent, the session closed and the worker not alive.
\<close>

lemma thread_times_out:
  "thread 5 (plain_world no_resolver no_http) (Worker_init 7) =
     Some \<lparr>chat = 7, queue = [], loc = Some (\<lambda>key kwargs. key), worker_invoice_payload = None,
            session_open = False, alive = False,
            sent = [SendMessage 7 ''conversation_open_user_menu''
                      (Some (create_keyboard (plain_world no_resolver no_http))) None,
                    SendMessage 7 ''conversation_expired'' (Some ReplyKeyboardRemove) None],
            next_message_id = 3\<rparr>"
  by (simp add: thread_def run_def Worker_init_def create_localization_def plain_world_def
      eval_nat_numeral user_menu_def user_menu_loop_def Let_def send_message_def
      wait_for_inlinekeyboard_callback.simps receive_next_update_def graceful_stop_eq)

text \<open>
  Claim C8. A cancel signal that a worker receives in a wait that is not cancellable is
  dropped: the wait gives the same result, with the same state of the worker, as on the
  queue without the signal, for each of the three waits. In a cancellable wait the signal is
  returned to the caller (next to the string \<open>1\<close> by the two waits for a message).
\<close>

theorem cancel_signal_discarded_or_returned:
  "wait_for_inlinekeyboard_callback lg False (w\<lparr>queue := CancelSignal # rest\<rparr>) =
     wait_for_inlinekeyboard_callback lg False (w\<lparr>queue := rest\<rparr>)
   \<and> wait_for_regex lg regex False (w\<lparr>queue := CancelSignal # rest\<rparr>) =
     wait_for_regex lg regex False (w\<lparr>queue := rest\<rparr>)
   \<and> wait_for_specific_message lg items False (w\<lparr>queue := CancelSignal # rest\<rparr>) =
     wait_for_specific_message lg items False (w\<lparr>queue := rest\<rparr>)
   \<and> wait_for_inlinekeyboard_callback lg True (w\<lparr>queue := CancelSignal # rest\<rparr>) =
     Return IsCancelSignal (w\<lparr>queue := rest\<rparr>)
   \<and> wait_for_regex lg regex True (w\<lparr>queue := CancelSignal # rest\<rparr>) =
     Return (IsCancelSignal, StrId ''1'') (w\<lparr>queue := rest\<rparr>)
   \<and> wait_for_specific_message lg items True (w\<lparr>queue := CancelSignal # rest\<rparr>) =
     Return (IsCancelSignal, StrId ''1'') (w\<lparr>queue := rest\<rparr>)"
proof (intro conjI)
  show "wait_for_inlinekeyboard_callback lg False (w\<lparr>queue := CancelSignal # rest\<rparr>) =
     wait_for_inlinekeyboard_callback lg False (w\<lparr>queue := rest\<rparr>)"
    by (subst wait_for_inlinekeyboard_callback.simps) (simp add: receive_next_update_Cancel)
  show "wait_for_regex lg regex False (w\<lparr>queue := CancelSignal # rest\<rparr>) =
     wait_for_regex lg regex False (w\<lparr>queue := rest\<rparr>)"
    by (subst wait_for_regex.simps) (simp add: receive_next_update_Cancel)
  show "wait_for_specific_message lg items False (w\<lparr>queue := CancelSignal # rest\<rparr>) =
     wait_for_specific_message lg items False (w\<lparr>queue := rest\<rparr>)"
    by (subst wait_for_specific_message.simps) (simp add: receive_next_update_Cancel)
  show "wait_for_inlinekeyboard_callback lg True (w\<lparr>queue := CancelSignal # rest\<rparr>) =
     Return IsCancelSignal (w\<lparr>queue := rest\<rparr>)"
    by (subst wait_for_inlinekeyboard_callback.simps) (simp add: receive_next_update_Cancel)
  show "wait_for_regex lg regex True (w\<lparr>queue := CancelSignal # rest\<rparr>) =
     Return (IsCancelSignal, StrId ''1'') (w\<lparr>queue := rest\<rparr>)"
    by (subst wait_for_regex.simps) (simp add: receive_next_update_Cancel)
  show "wait_for_specific_message lg items True (w\<lparr>queue := CancelSignal # rest\<rparr>) =
     Return (IsCancelSignal, StrId ''1'') (w\<lparr>queue := rest\<rparr>)"
    by (subst wait_for_specific_message.simps) (simp add: receive_next_update_Cancel)
qed

text \<open>The statement at a worker whose queue holds a cancel signal and then a button press.\<close>

theorem cancel_signal_discarded_or_returned_witness:
  "wait_for_inlinekeyboard_callback (\<lambda>key kwargs. key) False
     ((Worker_init 7)\<lparr>queue := [CancelSignal, Update (button_update 7 ''q1'' ''next'')]\<rparr>) =
     Return (Value \<lparr>cq_id = ''q1'', cq_from_user = 7, cq_data = ''next''\<rparr>)
       ((Worker_init 7)\<lparr>sent := [AnswerCallbackQuery ''q1'']\<rparr>)
   \<and> wait_for_inlinekeyboard_callback (\<lambda>key kwargs. key) True
     ((Worker_init 7)\<lparr>queue := [CancelSignal, Update (button_update 7 ''q1'' ''next'')]\<rparr>) =
     Return IsCancelSignal ((Worker_init 7)\<lparr>queue := [Update (button_update 7 ''q1'' ''next'')]\<rparr>)"
  using cancel_signal_discarded_or_returned
    [where lg = "\<lambda>key kwargs. key" and w = "Worker_init 7"
       and rest = "[Update (button_update 7 ''q1'' ''next'')]" and regex = regex_any
       and items = "[]"]
  by (simp add: wait_for_inlinekeyboard_callback.simps receive_next_update_def Worker_init_def
      button_update_def bot_call_def)

section \<open>The link prompt\<close>

lemmas conversation_eval =
  thread_def run_def Worker_init_def create_localization_def plain_world_def no_resolver_def
  no_http_def text_update_def button_update_def eval_nat_numeral Let_def
  user_menu_def user_menu_loop_def handle_menu_selection_def notify_updating_def soundcloud_def
  get_link_def handle_extraction_def
  wait_for_inlinekeyboard_callback.simps wait_for_regex.simps wait_for_specific_message.simps
  receive_next_update_def graceful_stop_eq send_message_def bot_call_def
  handle_invalid_link_def clean_up_messages_def MAX_RETRIES_def regex_any_def match_url_at_def
  startswith_def is_space_def

text \<open>
  Claim C2 at three messages without a link. The user presses the button of the link
  service and then sends \<open>a\<close>, \<open>b\<close> and \<open>c\<close>; a fourth update waits in the queue.
  \<open>get_link\<close> makes three attempts, answers each with the notice \<open>invalid_link\<close> and
  the cancel keyboard, sends the final notice and returns \<^verbatim>\<open>None\<close>. Unpacking that
  \<^verbatim>\<open>None\<close> in \<open>soundcloud\<close> raises \<^verbatim>\<open>TypeError\<close>, before the test
  \<^verbatim>\<open>if link is None: return\<close> is reached. The error leaves the menu loop; \<open>run\<close>
  answers with \<open>fatal_conversation_exception\<close> and the thread ends: the conversation
  does not go back to the main menu, and the fourth update is never taken.
\<close>

theorem get_link_exhausted_ends_the_conversation:
  "get_link (worker_methods 3 (plain_world no_resolver no_http)) (plain_world no_resolver no_http)
     0 50
     ((Worker_init 7)\<lparr>queue := [Update (text_update 7 101 ''a''), Update (text_update 7 102 ''b''),
                                  Update (text_update 7 103 ''c'')]\<rparr>) =
     Return None
       ((Worker_init 7)
          \<lparr>sent := [SendMessage 7 ''invalid_link'' (Some (ReplyKeyboardMarkup cancel_keyboard)) None,
                    DeleteMessage 7 50,
                    SendMessage 7 ''invalid_link'' (Some (ReplyKeyboardMarkup cancel_keyboard)) None,
                    DeleteMessage 7 50,
                    SendMessage 7 ''invalid_link'' (Some (ReplyKeyboardMarkup cancel_keyboard)) None,
                    SendMessage 7 ''invalid_link'' None None],
            next_message_id := 5\<rparr>)
   \<and> soundcloud (worker_methods 4 (plain_world no_resolver no_http))
       (plain_world no_resolver no_http)
       ((Worker_init 7)\<lparr>queue := [Update (text_update 7 101 ''a''), Update (text_update 7 102 ''b''),
                                    Update (text_update 7 103 ''c'')]\<rparr>) =
     Raise (Exception TypeError)
       ((Worker_init 7)
          \<lparr>sent := [SendMessage 7 ''msg_link'' (Some (ReplyKeyboardMarkup cancel_keyboard)) None,
                    SendMessage 7 ''invalid_link'' (Some (ReplyKeyboardMarkup cancel_keyboard)) None,
                    DeleteMessage 7 1,
                    SendMessage 7 ''invalid_link'' (Some (ReplyKeyboardMarkup cancel_keyboard)) None,
                    DeleteMessage 7 1,
                    SendMessage 7 ''invalid_link'' (Some (ReplyKeyboardMarkup cancel_keyboard)) None,
                    SendMessage 7 ''invalid_link'' None None],
            next_message_id := 6\<rparr>)
   \<and> thread 12 (plain_world no_resolver no_http)
       ((Worker_init 7)\<lparr>queue :=
          [Update (button_update 7 ''q1'' ''cmd_soundcloud''), Update (text_update 7 101 ''a''),
           Update (text_update 7 102 ''b''), Update (text_update 7 103 ''c''),
           Update (button_update 7 ''q2'' ''cmd_spotify'')]\<rparr>) =
     Some
       ((Worker_init 7)
          \<lparr>queue := [Update (button_update 7 ''q2'' ''cmd_spotify'')],
            loc := Some (\<lambda>key kwargs. key),
            sent := [SendMessage 7 ''conversation_open_user_menu''
                      (Some (create_keyboard (plain_world no_resolver no_http))) None,
                    AnswerCallbackQuery ''q1'',
                    DeleteMessage 7 1,
                    SendMessage 7 ''msg_link'' (Some (ReplyKeyboardMarkup cancel_keyboard)) None,
                    SendMessage 7 ''invalid_link'' (Some (ReplyKeyboardMarkup cancel_keyboard)) None,
                    DeleteMessage 7 2,
                    SendMessage 7 ''invalid_link'' (Some (ReplyKeyboardMarkup cancel_keyboard)) None,
                    DeleteMessage 7 2,
                    SendMessage 7 ''invalid_link'' (Some (ReplyKeyboardMarkup cancel_keyboard)) None,
                    SendMessage 7 ''invalid_link'' None None,
                    SendMessage 7 ''fatal_conversation_exception'' None None],
            next_message_id := 8\<rparr>)"
proof (intro conjI)
  let ?env = "plain_world no_resolver no_http"
  show "get_link (worker_methods 3 ?env) ?env 0 50
     ((Worker_init 7)\<lparr>queue := [Update (text_update 7 101 ''a''), Update (text_update 7 102 ''b''),
                                  Update (text_update 7 103 ''c'')]\<rparr>) =
     Return None
       ((Worker_init 7)
          \<lparr>sent := [SendMessage 7 ''invalid_link'' (Some (ReplyKeyboardMarkup cancel_keyboard)) None,
                    DeleteMessage 7 50,
                    SendMessage 7 ''invalid_link'' (Some (ReplyKeyboardMarkup cancel_keyboard)) None,
                    DeleteMessage 7 50,
                    SendMessage 7 ''invalid_link'' (Some (ReplyKeyboardMarkup cancel_keyboard)) None,
                    SendMessage 7 ''invalid_link'' None None],
            next_message_id := 5\<rparr>)"
    by (simp add: conversation_eval)
  show "soundcloud (worker_methods 4 ?env) ?env
       ((Worker_init 7)\<lparr>queue := [Update (text_update 7 101 ''a''), Update (text_update 7 102 ''b''),
                                    Update (text_update 7 103 ''c'')]\<rparr>) =
     Raise (Exception TypeError)
       ((Worker_init 7)
          \<lparr>sent := [SendMessage 7 ''msg_link'' (Some (ReplyKeyboardMarkup cancel_keyboard)) None,
                    SendMessage 7 ''invalid_link'' (Some (ReplyKeyboardMarkup cancel_keyboard)) None,
                    DeleteMessage 7 1,
                    SendMessage 7 ''invalid_link'' (Some (ReplyKeyboardMarkup cancel_keyboard)) None,
                    DeleteMessage 7 1,
                    SendMessage 7 ''invalid_link'' (Some (ReplyKeyboardMarkup cancel_keyboard)) None,
                    SendMessage 7 ''invalid_link'' None None],
            next_message_id := 6\<rparr>)"
    by (simp add: conversation_eval)
  show "thread 12 ?env
       ((Worker_init 7)\<lparr>queue :=
          [Update (button_update 7 ''q1'' ''cmd_soundcloud''), Update (text_update 7 101 ''a''),
           Update (text_update 7 102 ''b''), Update (text_update 7 103 ''c''),
           Update (button_update 7 ''q2'' ''cmd_spotify'')]\<rparr>) =
     Some
       ((Worker_init 7)
          \<lparr>queue := [Update (button_update 7 ''q2'' ''cmd_spotify'')],
            loc := Some (\<lambda>key kwargs. key),
            sent := [SendMessage 7 ''conversation_open_user_menu'' (Some (create_keyboard ?env)) None,
                    AnswerCallbackQuery ''q1'',
                    DeleteMessage 7 1,
                    SendMessage 7 ''msg_link'' (Some (ReplyKeyboardMarkup cancel_keyboard)) None,
                    SendMessage 7 ''invalid_link'' (Some (ReplyKeyboardMarkup cancel_keyboard)) None,
                    DeleteMessage 7 2,
                    SendMessage 7 ''invalid_link'' (Some (ReplyKeyboardMarkup cancel_keyboard)) None,
                    DeleteMessage 7 2,
                    SendMessage 7 ''invalid_link'' (Some (ReplyKeyboardMarkup cancel_keyboard)) None,
                    SendMessage 7 ''invalid_link'' None None,
                    SendMessage 7 ''fatal_conversation_exception'' None None],
            next_message_id := 8\<rparr>)"
    by (simp add: conversation_eval create_keyboard_def)
qed

section \<open>The redirect\<close>

lemma str_nat_small [simp]:
  "str_nat 0 = ''0''" "str_nat (Suc 0) = ''1''" "str_nat 1 = ''1''" "str_nat 2 = ''2''"
  "str_nat 3 = ''3''"
  by code_simp+

lemmas flow_eval =
  handle_url_def handle_playlist_def show_one_def show_many_def send_file_def
  collect_tracks.simps py_slice_def slice_bound_def py_index_def create_buttons_def
  create_navigation_buttons_def ITEMS_PER_PAGE_def redirect_resolver_def redirect_data_def
  playlist_data_def track_data_def get_best_thumbnail_def thumbnail_button_def
  create_format_buttons_def parse_int_def parse_nat_def is_digit_def digits_value_def

text \<open>
  Claim C6 at a redirect whose target is a playlist with one entry. \<open>handle_url\<close>
  resolves the target once and enters the list flow. The user opens the entry and then
  presses a button of an older message, whose data (\<open>cmd_youtube\<close>) the detail view does
  not know: \<open>show_one\<close> returns, so do \<open>show_many\<close> and \<open>handle_playlist\<close>, and
  \<open>handle_url\<close> goes on to \<open>show_one\<close> with the playlist itself, since the call is
  not in an \<^verbatim>\<open>else\<close> branch. With the playlist as the resolver gives it, that call raises
  \<^verbatim>\<open>KeyError\<close> (no \<^verbatim>\<open>thumbnails\<close>); with a playlist that carries thumbnails and formats,
  the detail view of the playlist is shown after the list flow, in the same call of
  \<open>handle_url\<close>, and the conversation waits there until it times out.
\<close>

theorem handle_url_runs_both_flows:
  "handle_url (worker_methods 3 (plain_world (redirect_resolver playlist_data) no_http))
     (plain_world (redirect_resolver playlist_data) no_http) redirect_data 40
     ((Worker_init 7)\<lparr>queue := [Update (button_update 7 ''q1'' ''button_0''),
                                  Update (button_update 7 ''q2'' ''cmd_youtube'')]\<rparr>) =
     Raise (Exception KeyError)
       ((Worker_init 7)
          \<lparr>sent :=
             [EditMessageText 7 40 ''album_caption'' None,
              SendMessage 7 ''get_information'' None None,
              EditMessageText 7 1 ''get_information'' None,
              DeleteMessage 7 1,
              EditMessageReplyMarkup 7 40
                (Some (InlineKeyboardMarkup
                   [[\<lparr>btn_text = ''1. Song'', callback_data = ''button_0''\<rparr>],
                    [\<lparr>btn_text = ''menu_cancel'', callback_data = ''cmd_cancel''\<rparr>]])),
              AnswerCallbackQuery ''q1'',
              EditMessageText 7 40 (''Title: Song'' @ [CHR 0x0A] @ ''URL: https://soundcloud.com/t1'')
                (Some (InlineKeyboardMarkup
                   [[\<lparr>btn_text = ''menu_cancel'', callback_data = ''cmd_cancel''\<rparr>]])),
              AnswerCallbackQuery ''q2''],
            next_message_id := 2\<rparr>)
   \<and> handle_url
       (worker_methods 3
          (plain_world
             (redirect_resolver (playlist_data\<lparr>d_thumbnails := Some [], d_formats := Some []\<rparr>))
             no_http))
       (plain_world
          (redirect_resolver (playlist_data\<lparr>d_thumbnails := Some [], d_formats := Some []\<rparr>))
          no_http)
       redirect_data 40
       ((Worker_init 7)\<lparr>queue := [Update (button_update 7 ''q1'' ''button_0''),
                                    Update (button_update 7 ''q2'' ''cmd_youtube'')]\<rparr>) =
     Raise (SystemExit 0)
       ((Worker_init 7)
          \<lparr>session_open := False,
            sent :=
             [EditMessageText 7 40 ''album_caption'' None,
              SendMessage 7 ''get_information'' None None,
              EditMessageText 7 1 ''get_information'' None,
              DeleteMessage 7 1,
              EditMessageReplyMarkup 7 40
                (Some (InlineKeyboardMarkup
                   [[\<lparr>btn_text = ''1. Song'', callback_data = ''button_0''\<rparr>],
                    [\<lparr>btn_text = ''menu_cancel'', callback_data = ''cmd_cancel''\<rparr>]])),
              AnswerCallbackQuery ''q1'',
              EditMessageText 7 40 (''Title: Song'' @ [CHR 0x0A] @ ''URL: https://soundcloud.com/t1'')
                (Some (InlineKeyboardMarkup
                   [[\<lparr>btn_text = ''menu_cancel'', callback_data = ''cmd_cancel''\<rparr>]])),
              AnswerCallbackQuery ''q2'',
              EditMessageText 7 40 (''Title: Album'' @ [CHR 0x0A] @ ''URL: https://soundcloud.com/set'')
                (Some (InlineKeyboardMarkup
                   [[\<lparr>btn_text = ''menu_cancel'', callback_data = ''cmd_cancel''\<rparr>]])),
              SendMessage 7 ''conversation_expired'' (Some ReplyKeyboardRemove) None],
            next_message_id := 3\<rparr>)"
  by (simp add: conversation_eval flow_eval)

end
